theory Spec2Isabelle
  imports Complex_Main "HOL-Library.Monad_Syntax" "HOL-Library.Multiset"
begin

section \<open>Tensors\<close>

text \<open>
  The models of \<^verbatim>\<open>src/models/vae_models.py\<close> and the data preparation of
  \<^verbatim>\<open>src/utils.py\<close> work on rank-1 and rank-2 float tensors. They are modelled in exact
  real arithmetic: a vector is a list of reals, a matrix is the list of its rows (axis 0
  is the batch, axis 1 the features). A library call that raises is the value \<open>None\<close>.

  The element-wise operations below pair the entries of two operands of one shape;
  every call site in the source passes operands of one shape (the two halves of one
  \<^verbatim>\<open>tf.split\<close>, noise drawn with the shape of the mean). TensorFlow's broadcasting of
  operands of different shapes is outside the model, and the theorems that depend on it
  carry the hypothesis \<open>same_shape\<close>.
\<close>

type_synonym vec = "real list"
type_synonym matrix = "real list list"

definition same_shape :: "matrix \<Rightarrow> matrix \<Rightarrow> bool" where
  "same_shape A B = list_all2 (\<lambda>a b. length a = length b) A B"

definition mat_map :: "(real \<Rightarrow> real) \<Rightarrow> matrix \<Rightarrow> matrix" where
  "mat_map f A = map (map f) A"

definition mat_map2 :: "(real \<Rightarrow> real \<Rightarrow> real) \<Rightarrow> matrix \<Rightarrow> matrix \<Rightarrow> matrix" where
  "mat_map2 f A B = map2 (map2 f) A B"

text \<open>\<^verbatim>\<open>tf.reduce_sum(t, axis=1)\<close>: one sum per row.\<close>

definition reduce_sum_axis1 :: "matrix \<Rightarrow> vec" where
  "reduce_sum_axis1 A = map sum_list A"

text \<open>
  \<^verbatim>\<open>tf.reduce_mean\<close> of a vector. On an empty vector TensorFlow returns NaN; here the
  quotient by zero is 0, so statements about the mean of a batch assume a non-empty batch.
\<close>

definition reduce_mean :: "vec \<Rightarrow> real" where
  "reduce_mean v = sum_list v / real (length v)"

section \<open>The KL term\<close>

text \<open>
  \<^verbatim>\<open>
  def calc_kl_loss(mu, log_var):
      loss = -0.5 * (1 + log_var - tf.square(mu) - tf.exp(log_var))
      loss = tf.reduce_mean(tf.reduce_sum(loss, axis=1))
      return loss
  \<close>
\<close>

definition calc_kl_loss :: "matrix \<Rightarrow> matrix \<Rightarrow> real" where
  "calc_kl_loss mu log_var =
     (let loss = mat_map (\<lambda>v. - 0.5 * v)
                   (mat_map2 (-)
                      (mat_map2 (-) (mat_map (\<lambda>v. 1 + v) log_var) (mat_map (\<lambda>v. v\<^sup>2) mu))
                      (mat_map exp log_var));
          loss = reduce_mean (reduce_sum_axis1 loss)
      in loss)"

text \<open>
  The KL term of one example in the words of the specification:
  \<open>-0.5 \<cdot> \<Sigma>_dims (1 + logvar - mean\<^sup>2 - exp logvar)\<close>.
\<close>

definition spec_kl_term :: "vec \<Rightarrow> vec \<Rightarrow> real" where
  "spec_kl_term mean logvar = - 0.5 * sum_list (map2 (\<lambda>m l. 1 + l - m\<^sup>2 - exp l) mean logvar)"

section \<open>Dense layers\<close>

text \<open>
  A \<^verbatim>\<open>keras.layers.Dense\<close> as the constructors of the source configure it: the number of
  units, the activation, the two initializers and the optional L2 coefficient of the
  kernel regularizer. \<open>Linear\<close> is Keras's identity activation, which the source never
  selects; it is here to compare with what the docstrings announce.
\<close>

datatype activation = Selu | Softmax | Linear

datatype initializer = Lecun_normal | Glorot_uniform | Zeros

record dense =
  units :: nat
  activation :: activation
  kernel_initializer :: initializer
  bias_initializer :: initializer
  kernel_regularizer :: "real option"

text \<open>
  The trainable weights of a layer: the kernel, one row per input feature and one column
  per unit, and the bias, one entry per unit. They are a separate argument of every call.
\<close>

type_synonym dense_weights = "matrix \<times> vec"

text \<open>The SELU constants of Keras.\<close>

definition selu_alpha :: real where
  "selu_alpha = 1.6732632423543772848170429916717"

definition selu_scale :: real where
  "selu_scale = 1.0507009873554804934193349852946"

definition selu :: "real \<Rightarrow> real" where
  "selu x = selu_scale * (if x > 0 then x else selu_alpha * (exp x - 1))"

text \<open>Softmax along the last axis: of one row.\<close>

definition softmax :: "vec \<Rightarrow> vec" where
  "softmax v = map (\<lambda>x. exp x / sum_list (map exp v)) v"

fun apply_activation :: "activation \<Rightarrow> vec \<Rightarrow> vec" where
  "apply_activation Selu v = map selu v"
| "apply_activation Softmax v = softmax v"
| "apply_activation Linear v = v"

text \<open>Entry \<open>j\<close> of the product of the row \<open>x\<close> with the kernel \<open>K\<close>.\<close>

definition dot_col :: "vec \<Rightarrow> matrix \<Rightarrow> nat \<Rightarrow> real" where
  "dot_col x K j = sum_list (map2 (\<lambda>xi r. xi * r ! j) x K)"

text \<open>
  \<open>activation (inputs @ kernel + bias)\<close>, row by row. The product raises when the width
  of the input is not the number of rows of the kernel; the kernel has \<open>units\<close> columns
  and the bias \<open>units\<close> entries.
\<close>

definition dense_call :: "dense \<Rightarrow> dense_weights \<Rightarrow> matrix \<Rightarrow> matrix option" where
  "dense_call layer w X =
     (case w of (K, b) \<Rightarrow>
        if (\<forall>x \<in> set X. length x = length K) \<and> (\<forall>r \<in> set K. length r = units layer)
           \<and> length b = units layer
        then Some (map (\<lambda>x. apply_activation (activation layer)
                               (map (\<lambda>j. dot_col x K j + b ! j) [0..<units layer])) X)
        else None)"

text \<open>\<^verbatim>\<open>for layer in layers: x = layer(x)\<close>, each layer with its own weights.\<close>

fun call_layers :: "dense list \<Rightarrow> dense_weights list \<Rightarrow> matrix \<Rightarrow> matrix option" where
  "call_layers [] [] x = Some x"
| "call_layers (l # ls) (w # ws) x = dense_call l w x \<bind> call_layers ls ws"
| "call_layers _ _ _ = None"

section \<open>The encoder\<close>

text \<open>
  \<open>hidden_dim\<close> and \<open>l2_reg\<close> are attributes of both \<^verbatim>\<open>VAEEncoder\<close> and
  \<^verbatim>\<open>VAEDecoder\<close>; the two records extend one record that holds them. The default
  \<^verbatim>\<open>l2_reg=1e-3\<close> of the constructors is the caller's to pass.
\<close>

record layered_model =
  hidden_dim :: "nat list"
  l2_reg :: real

record VAEEncoder = layered_model +
  latent_dim :: nat
  y_dim :: nat
  hidden_layers :: "dense list"
  y_layer :: dense
  latent_layer :: dense

definition selu_layer :: "real \<Rightarrow> nat \<Rightarrow> dense" where
  "selu_layer reg h_dim =
     \<lparr>units = h_dim, activation = Selu, kernel_initializer = Lecun_normal,
      bias_initializer = Zeros, kernel_regularizer = Some reg\<rparr>"

definition VAEEncoder_init :: "nat list \<Rightarrow> nat \<Rightarrow> nat \<Rightarrow> real \<Rightarrow> VAEEncoder" where
  "VAEEncoder_init hidden_dim' latent_dim' y_dim' l2_reg' =
     \<lparr>hidden_dim = hidden_dim', l2_reg = l2_reg',
      latent_dim = latent_dim', y_dim = y_dim',
      hidden_layers = map (selu_layer l2_reg') hidden_dim',
      y_layer = \<lparr>units = y_dim', activation = Softmax, kernel_initializer = Lecun_normal,
                 bias_initializer = Zeros, kernel_regularizer = None\<rparr>,
      latent_layer = \<lparr>units = latent_dim' * 2, activation = Selu,
                      kernel_initializer = Lecun_normal, bias_initializer = Zeros,
                      kernel_regularizer = Some l2_reg'\<rparr>\<rparr>"

record encoder_weights =
  hidden_w :: "dense_weights list"
  y_w :: dense_weights
  latent_w :: dense_weights

text \<open>
  \<^verbatim>\<open>tf.split(z, num_or_size_splits=2, axis=1)\<close>: the left and the right half of every
  row; it raises when the width is odd.
\<close>

definition split2_axis1 :: "matrix \<Rightarrow> (matrix \<times> matrix) option" where
  "split2_axis1 z =
     (if \<forall>r \<in> set z. even (length r)
      then Some (map (\<lambda>r. take (length r div 2) r) z, map (\<lambda>r. drop (length r div 2) r) z)
      else None)"

text \<open>
  \<^verbatim>\<open>random_normal(shape=(batch, dim))\<close>. The draws are an argument of the model: \<open>noise i j\<close>
  is the standard-normal draw for row \<open>i\<close> and column \<open>j\<close>.
\<close>

definition random_normal :: "(nat \<Rightarrow> nat \<Rightarrow> real) \<Rightarrow> nat \<Rightarrow> nat \<Rightarrow> matrix" where
  "random_normal noise batch dim' = map (\<lambda>i. map (\<lambda>j. noise i j) [0..<dim']) [0..<batch]"

text \<open>\<^verbatim>\<open>tf.shape(t)[1]\<close> of a matrix with at least one row (with none, no entry is drawn).\<close>

definition shape1 :: "matrix \<Rightarrow> nat" where
  "shape1 A = (case A of [] \<Rightarrow> 0 | r # _ \<Rightarrow> length r)"

text \<open>
  \<^verbatim>\<open>
  def call(self, inputs, training=False, mask=None):
      x = inputs
      for layer in self.hidden_layers:
          x = layer(x)
      z = self.latent_layer(x)
      z_mean, z_log_var = tf.split(z, num_or_size_splits=2, axis=1)
      batch = tf.shape(z_mean)[0]
      dim = tf.shape(z_mean)[1]
      epsilon = tf.keras.backend.random_normal(shape=(batch, dim))
      z = z_mean + tf.exp(0.5 * z_log_var) * epsilon
      y = self.y_layer(x)
      return z_mean, z_log_var, z, y
  \<close>
\<close>

definition VAEEncoder_call ::
  "VAEEncoder \<Rightarrow> encoder_weights \<Rightarrow> (nat \<Rightarrow> nat \<Rightarrow> real) \<Rightarrow> matrix
     \<Rightarrow> (matrix \<times> matrix \<times> matrix \<times> matrix) option" where
  "VAEEncoder_call enc w noise inputs =
     do {
       x \<leftarrow> call_layers (hidden_layers enc) (hidden_w w) inputs;
       z \<leftarrow> dense_call (latent_layer enc) (latent_w w) x;
       (z_mean, z_log_var) \<leftarrow> split2_axis1 z;
       let batch = length z_mean;
       let dim' = shape1 z_mean;
       let epsilon = random_normal noise batch dim';
       let z = mat_map2 (+) z_mean
                 (mat_map2 (*) (mat_map exp (mat_map (\<lambda>v. 0.5 * v) z_log_var)) epsilon);
       y \<leftarrow> dense_call (y_layer enc) (y_w w) x;
       Some (z_mean, z_log_var, z, y)
     }"

section \<open>The decoder\<close>

record VAEDecoder = layered_model +
  output_dim :: nat
  dense_layers :: "dense list"

definition VAEDecoder_init :: "nat list \<Rightarrow> nat \<Rightarrow> real \<Rightarrow> VAEDecoder" where
  "VAEDecoder_init hidden_dim' output_dim' l2_reg' =
     \<lparr>hidden_dim = hidden_dim', l2_reg = l2_reg',
      output_dim = output_dim',
      dense_layers = map (selu_layer l2_reg') hidden_dim'
        @ [\<lparr>units = output_dim', activation = Softmax, kernel_initializer = Glorot_uniform,
            bias_initializer = Zeros, kernel_regularizer = None\<rparr>]\<rparr>"

definition VAEDecoder_call :: "VAEDecoder \<Rightarrow> dense_weights list \<Rightarrow> matrix \<Rightarrow> matrix option" where
  "VAEDecoder_call dec ws inputs = call_layers (dense_layers dec) ws inputs"

section \<open>The composite model\<close>

text \<open>
  The loss functions are attributes set by \<^verbatim>\<open>compile\<close> and \<open>None\<close> before it. A loss
  function returns a tensor, a scalar or one value per example, and \<^verbatim>\<open>train_step\<close> takes
  \<^verbatim>\<open>tf.reduce_mean\<close> of what the KL function returns; the mean of a scalar is the scalar.
\<close>

datatype tensor = Scalar real | Vector vec

fun tf_reduce_mean :: "tensor \<Rightarrow> real" where
  "tf_reduce_mean (Scalar v) = v"
| "tf_reduce_mean (Vector v) = reduce_mean v"

record optimizer =
  lr :: real

record VAE =
  encoder :: VAEEncoder
  decoder :: VAEDecoder
  reconstruction_loss_fn :: "(matrix \<Rightarrow> matrix \<Rightarrow> real) option"
  kl_loss_fn :: "(matrix \<Rightarrow> matrix \<Rightarrow> tensor) option"
  y_loss_fn :: "(matrix \<Rightarrow> matrix \<Rightarrow> real) option"
  optimizer :: "optimizer option"

definition VAE_init :: "VAEEncoder \<Rightarrow> VAEDecoder \<Rightarrow> VAE" where
  "VAE_init encoder' decoder' =
     \<lparr>encoder = encoder', decoder = decoder', reconstruction_loss_fn = None,
      kl_loss_fn = None, y_loss_fn = None, optimizer = None\<rparr>"

text \<open>
  \<^verbatim>\<open>compile\<close> stores its four arguments. Its defaults are Adam with learning rate
  \<open>1e-3\<close>, \<^verbatim>\<open>MeanSquaredError()\<close>, \<^verbatim>\<open>calc_kl_loss\<close> and
  \<^verbatim>\<open>CategoricalCrossentropy()\<close>; \<open>default_kl_loss_fn\<close> is the third.
\<close>

definition VAE_compile ::
  "VAE \<Rightarrow> optimizer \<Rightarrow> (matrix \<Rightarrow> matrix \<Rightarrow> real) \<Rightarrow> (matrix \<Rightarrow> matrix \<Rightarrow> tensor)
     \<Rightarrow> (matrix \<Rightarrow> matrix \<Rightarrow> real) \<Rightarrow> VAE" where
  "VAE_compile vae optimizer' reconstruction_loss_fn' kl_loss_fn' y_loss_fn' =
     vae\<lparr>optimizer := Some optimizer',
         reconstruction_loss_fn := Some reconstruction_loss_fn',
         kl_loss_fn := Some kl_loss_fn',
         y_loss_fn := Some y_loss_fn'\<rparr>"

definition default_kl_loss_fn :: "matrix \<Rightarrow> matrix \<Rightarrow> tensor" where
  "default_kl_loss_fn mu log_var = Scalar (calc_kl_loss mu log_var)"

text \<open>
  Keras's \<^verbatim>\<open>MeanSquaredError\<close>: the mean over the features of the squared difference,
  averaged over the batch.
\<close>

definition MeanSquaredError :: "matrix \<Rightarrow> matrix \<Rightarrow> real" where
  "MeanSquaredError y_true y_pred =
     reduce_mean (map reduce_mean (mat_map2 (\<lambda>t p. (p - t)\<^sup>2) y_true y_pred))"

text \<open>\<^verbatim>\<open>tf.concat([a, b], axis=1)\<close>; it raises when the batch sizes differ.\<close>

definition concat_axis1 :: "matrix \<Rightarrow> matrix \<Rightarrow> matrix option" where
  "concat_axis1 A B = (if length A = length B then Some (map2 (@) A B) else None)"

record vae_weights =
  encoder_w :: encoder_weights
  decoder_w :: "dense_weights list"

text \<open>
  \<^verbatim>\<open>
  def call(self, data, training=False, mask=None):
      x, y = data
      z_mean, z_log_var, z, y_hat = self.encoder(x, training=training)
      x_reconstructed = self.decoder(tf.concat([z, y], axis=1), training=training)
      return z_mean, z_log_var, z, y_hat, x_reconstructed
  \<close>
\<close>

definition VAE_call ::
  "VAE \<Rightarrow> vae_weights \<Rightarrow> (nat \<Rightarrow> nat \<Rightarrow> real) \<Rightarrow> matrix \<times> matrix
     \<Rightarrow> (matrix \<times> matrix \<times> matrix \<times> matrix \<times> matrix) option" where
  "VAE_call vae w noise data =
     (case data of (x, y) \<Rightarrow>
        do {
          (z_mean, z_log_var, z, y_hat) \<leftarrow> VAEEncoder_call (encoder vae) (encoder_w w) noise x;
          decoder_input \<leftarrow> concat_axis1 z y;
          x_reconstructed \<leftarrow> VAEDecoder_call (decoder vae) (decoder_w w) decoder_input;
          Some (z_mean, z_log_var, z, y_hat, x_reconstructed)
        })"

text \<open>
  The dictionary that \<^verbatim>\<open>train_step\<close> returns. The gradient step that follows the
  computation of the losses changes the weights for the next call and none of the values
  returned; it is not part of the model.
  \<^verbatim>\<open>
  def train_step(self, batch_data):
      x, y = batch_data
      with tf.GradientTape() as tape:
          z_mean, z_log_var, z, y_hat, x_reconstructed = self(batch_data, training=True)
          reconstruction_loss = self.reconstruction_loss_fn(x, x_reconstructed)
          kl_loss = tf.reduce_mean(self.kl_loss_fn(z_mean, z_log_var))
          y_loss = self.y_loss_fn(y, y_hat)
          total_loss = reconstruction_loss + kl_loss + y_loss
      ...
      return {"reconstruction_loss": reconstruction_loss, "kl_loss": kl_loss,
              "y_loss": y_loss, "total_loss": total_loss, "lr": self.optimizer.lr}
  \<close>
\<close>

record train_metrics =
  reconstruction_loss :: real
  kl_loss :: real
  y_loss :: real
  total_loss :: real
  metric_lr :: real

definition train_step ::
  "VAE \<Rightarrow> vae_weights \<Rightarrow> (nat \<Rightarrow> nat \<Rightarrow> real) \<Rightarrow> matrix \<times> matrix \<Rightarrow> train_metrics option" where
  "train_step vae w noise batch_data =
     (case batch_data of (x, y) \<Rightarrow>
        do {
          (z_mean, z_log_var, z, y_hat, x_reconstructed) \<leftarrow> VAE_call vae w noise batch_data;
          rec_fn \<leftarrow> reconstruction_loss_fn vae;
          let reconstruction_loss' = rec_fn x x_reconstructed;
          kl_fn \<leftarrow> kl_loss_fn vae;
          let kl_loss' = tf_reduce_mean (kl_fn z_mean z_log_var);
          y_fn \<leftarrow> y_loss_fn vae;
          let y_loss' = y_fn y y_hat;
          let total_loss' = reconstruction_loss' + kl_loss' + y_loss';
          opt \<leftarrow> optimizer vae;
          Some \<lparr>reconstruction_loss = reconstruction_loss', kl_loss = kl_loss',
                y_loss = y_loss', total_loss = total_loss', metric_lr = lr opt\<rparr>
        })"

section \<open>Configurations\<close>

text \<open>
  \<^verbatim>\<open>get_config\<close> returns a dictionary from attribute names to values and
  \<^verbatim>\<open>from_config\<close> reads the constructor's arguments out of one; a missing key raises
  \<^verbatim>\<open>KeyError\<close>. A value is an integer, a float, a list of integers or a nested
  dictionary. A value of another kind than the constructor works with (where Python
  raises later, or converts) is outside the model and \<open>None\<close>, except that an integer
  is accepted for the float \<open>l2_reg\<close>.
\<close>

datatype config_value =
  Int_value nat
| Float_value real
| List_value "nat list"
| Dict_value "(string \<times> config_value) list"

type_synonym config = "(string \<times> config_value) list"

fun as_int :: "config_value \<Rightarrow> nat option" where
  "as_int (Int_value n) = Some n"
| "as_int _ = None"

fun as_float :: "config_value \<Rightarrow> real option" where
  "as_float (Float_value r) = Some r"
| "as_float (Int_value n) = Some (real n)"
| "as_float _ = None"

fun as_list :: "config_value \<Rightarrow> nat list option" where
  "as_list (List_value xs) = Some xs"
| "as_list _ = None"

fun as_dict :: "config_value \<Rightarrow> config option" where
  "as_dict (Dict_value d) = Some d"
| "as_dict _ = None"

definition VAEEncoder_get_config :: "VAEEncoder \<Rightarrow> config" where
  "VAEEncoder_get_config self =
     [(''hidden_dim'', List_value (hidden_dim self)),
      (''latent_dim'', Int_value (latent_dim self)),
      (''y_dim'', Int_value (y_dim self)),
      (''l2_reg'', Float_value (l2_reg self))]"

definition VAEEncoder_from_config :: "config \<Rightarrow> VAEEncoder option" where
  "VAEEncoder_from_config config =
     do {
       h \<leftarrow> map_of config ''hidden_dim'' \<bind> as_list;
       l \<leftarrow> map_of config ''latent_dim'' \<bind> as_int;
       y \<leftarrow> map_of config ''y_dim'' \<bind> as_int;
       r \<leftarrow> map_of config ''l2_reg'' \<bind> as_float;
       Some (VAEEncoder_init h l y r)
     }"

definition VAEDecoder_get_config :: "VAEDecoder \<Rightarrow> config" where
  "VAEDecoder_get_config self =
     [(''hidden_dim'', List_value (hidden_dim self)),
      (''output_dim'', Int_value (output_dim self)),
      (''l2_reg'', Float_value (l2_reg self))]"

definition VAEDecoder_from_config :: "config \<Rightarrow> VAEDecoder option" where
  "VAEDecoder_from_config config =
     do {
       h \<leftarrow> map_of config ''hidden_dim'' \<bind> as_list;
       out \<leftarrow> map_of config ''output_dim'' \<bind> as_int;
       r \<leftarrow> map_of config ''l2_reg'' \<bind> as_float;
       Some (VAEDecoder_init h out r)
     }"

definition VAE_get_config :: "VAE \<Rightarrow> config" where
  "VAE_get_config self =
     [(''encoder_config'', Dict_value (VAEEncoder_get_config (encoder self))),
      (''decoder_config'', Dict_value (VAEDecoder_get_config (decoder self)))]"

definition VAE_from_config :: "config \<Rightarrow> VAE option" where
  "VAE_from_config config =
     do {
       encoder' \<leftarrow> map_of config ''encoder_config'' \<bind> as_dict \<bind> VAEEncoder_from_config;
       decoder' \<leftarrow> map_of config ''decoder_config'' \<bind> as_dict \<bind> VAEDecoder_from_config;
       Some (VAE_init encoder' decoder')
     }"

section \<open>Data preparation\<close>

text \<open>
  The table that \<^verbatim>\<open>pd.read_csv\<close> returns, as the functions of \<^verbatim>\<open>src/utils.py\<close> read
  it. Of the nine named columns only \<^verbatim>\<open>age\<close>, \<^verbatim>\<open>sex\<close> and \<^verbatim>\<open>dcode\<close> are read; the other
  six (\<^verbatim>\<open>scanner\<close>, \<^verbatim>\<open>euler\<close>, \<^verbatim>\<open>BrainSegVolNotVent\<close>, \<^verbatim>\<open>euler_med\<close>, \<^verbatim>\<open>sample\<close>,
  \<^verbatim>\<open>timepoint\<close>) are dropped unread and not kept here. \<open>feature_names\<close> are the names of
  the remaining columns in their order and \<open>features\<close> the values of one row in them (a
  table is rectangular: every row has one value per name). The row labels are the
  positions \<open>0, 1, \<dots>\<close>, as \<^verbatim>\<open>read_csv\<close> assigns them. The type of \<^verbatim>\<open>sex\<close> is any
  ordered type of categories.
\<close>

record 'c table_row =
  age :: real
  sex :: 'c
  dcode :: int
  features :: vec

record 'c dataframe =
  feature_names :: "string list"
  rows :: "'c table_row list"

text \<open>\<^verbatim>\<open>round(0)\<close> of pandas and NumPy rounds a half to the even neighbour.\<close>

definition round_half_even :: "real \<Rightarrow> int" where
  "round_half_even x =
     (let f = \<lfloor>x\<rfloor>; d = x - of_int f
      in if d < 1 / 2 then f else if 1 / 2 < d then f + 1 else if even f then f else f + 1)"

text \<open>
  \<^verbatim>\<open>OneHotEncoder(sparse_output=False).fit_transform\<close> of one column: the categories are
  the distinct values in increasing order, and a row has a 1 at its value's category.
  scikit-learn raises on a column without rows.
\<close>

definition OneHotEncoder_fit_transform :: "'a::linorder list \<Rightarrow> matrix option" where
  "OneHotEncoder_fit_transform column =
     (if column = [] then None
      else let categories = sort (remdups column)
           in Some (map (\<lambda>v. map (\<lambda>c. if v = c then 1 else 0) categories) column))"

text \<open>
  \<^verbatim>\<open>db[db['dcode'] == 0].index\<close>: the labels of the rows whose \<^verbatim>\<open>dcode\<close> is 0.
\<close>

definition condition_indices :: "'c dataframe \<Rightarrow> nat list" where
  "condition_indices db =
     map fst (filter (\<lambda>(i, r). dcode r = 0) (enumerate 0 (rows db)))"

text \<open>\<^verbatim>\<open>index.isin(values)\<close>, one truth value per label of the index.\<close>

definition isin :: "nat list \<Rightarrow> nat list \<Rightarrow> bool list" where
  "isin index values = map (\<lambda>i. i \<in> set values) index"

text \<open>
  Selection of rows by a list of labels (\<^verbatim>\<open>db.loc[labels]\<close>, \<^verbatim>\<open>y[labels, :]\<close>) and by a
  boolean mask (\<^verbatim>\<open>db.loc[mask]\<close>, \<^verbatim>\<open>y[mask, :]\<close>). The labels that the source passes are
  labels of the table.
\<close>

definition loc_labels :: "'a list \<Rightarrow> nat list \<Rightarrow> 'a list" where
  "loc_labels X labels = map (\<lambda>i. X ! i) labels"

definition loc_mask :: "'a list \<Rightarrow> bool list \<Rightarrow> 'a list" where
  "loc_mask X mask' = map fst (filter snd (zip X mask'))"

text \<open>\<^verbatim>\<open>~db.index.isin(condition_indices)\<close>.\<close>

definition test_mask :: "'c dataframe \<Rightarrow> bool list" where
  "test_mask db = map Not (isin [0..<length (rows db)] (condition_indices db))"

text \<open>
  \<^verbatim>\<open>StandardScaler\<close>: \<^verbatim>\<open>fit\<close> stores the mean and the population variance of every
  column and the scale, the square root of the variance, or 1 for a column of variance
  0 (the attributes \<^verbatim>\<open>mean_\<close>, \<^verbatim>\<open>var_\<close> and \<^verbatim>\<open>scale_\<close>); \<^verbatim>\<open>transform\<close> subtracts the mean and divides by the scale. Both raise on a matrix
  without rows or without columns, and \<^verbatim>\<open>transform\<close> on a matrix of another width than
  the fitted one.
\<close>

record StandardScaler =
  mean' :: vec
  var' :: vec
  scale' :: vec

definition check_array :: "matrix \<Rightarrow> bool" where
  "check_array X = (X \<noteq> [] \<and> shape1 X \<noteq> 0)"

definition column :: "matrix \<Rightarrow> nat \<Rightarrow> vec" where
  "column X j = map (\<lambda>r. r ! j) X"

definition column_mean :: "vec \<Rightarrow> real" where
  "column_mean c = sum_list c / real (length c)"

definition column_var :: "vec \<Rightarrow> real" where
  "column_var c = sum_list (map (\<lambda>v. (v - column_mean c)\<^sup>2) c) / real (length c)"

definition StandardScaler_fit :: "matrix \<Rightarrow> StandardScaler option" where
  "StandardScaler_fit X =
     (if check_array X
      then let cols = map (column X) [0..<shape1 X];
               var = map column_var cols
           in Some \<lparr>mean' = map column_mean cols, var' = var,
                    scale' = map (\<lambda>v. if v = 0 then 1 else sqrt v) var\<rparr>
      else None)"

definition StandardScaler_transform :: "StandardScaler \<Rightarrow> matrix \<Rightarrow> matrix option" where
  "StandardScaler_transform self X =
     (if check_array X \<and> shape1 X = length (mean' self)
      then Some (map (\<lambda>r. map2 (\<lambda>v (m, s). (v - m) / s) r (zip (mean' self) (scale' self))) X)
      else None)"

definition StandardScaler_fit_transform :: "matrix \<Rightarrow> (StandardScaler \<times> matrix) option" where
  "StandardScaler_fit_transform X =
     do {
       self \<leftarrow> StandardScaler_fit X;
       X_norm \<leftarrow> StandardScaler_transform self X;
       Some (self, X_norm)
     }"

text \<open>
  The label matrix: the one-hot rounded age beside the one-hot sex
  (\<^verbatim>\<open>np.concatenate((one_hot_age, one_hot_sex), axis=1)\<close>).
\<close>

definition y_data :: "('c::linorder) dataframe \<Rightarrow> matrix option" where
  "y_data db =
     do {
       one_hot_sex \<leftarrow> OneHotEncoder_fit_transform (map sex (rows db));
       one_hot_age \<leftarrow> OneHotEncoder_fit_transform (map (\<lambda>r. round_half_even (age r)) (rows db));
       Some (map2 (@) one_hot_age one_hot_sex)
     }"

text \<open>
  \<^verbatim>\<open>
  def generate_data(filepath):
      db = pd.read_csv(filepath)
      ...
      condition_indices = db[db['dcode'] == 0].index
      db = db.drop(['age', 'sex', ..., 'dcode', 'timepoint'], axis=1, inplace=False)
      train_x = db.loc[condition_indices]
      test_x = db.loc[~db.index.isin(condition_indices)]
      y_data = np.concatenate((one_hot_age, one_hot_sex), axis=1).astype('float32')
      scaler = StandardScaler()
      train_x_norm = scaler.fit_transform(train_x)
      test_x_norm = scaler.transform(test_x)
      train_y = y_data[condition_indices, :]
      test_y = y_data[~db.index.isin(condition_indices), :]
      return train_x_norm, train_y, test_x_norm, test_y
  \<close>
  The argument is the table read from the file.
\<close>

definition train_x :: "'c dataframe \<Rightarrow> matrix" where
  "train_x db = loc_labels (map features (rows db)) (condition_indices db)"

definition test_x :: "'c dataframe \<Rightarrow> matrix" where
  "test_x db = loc_mask (map features (rows db)) (test_mask db)"

definition generate_data ::
  "('c::linorder) dataframe \<Rightarrow> (matrix \<times> matrix \<times> matrix \<times> matrix) option" where
  "generate_data db =
     do {
       y \<leftarrow> y_data db;
       (scaler, train_x_norm) \<leftarrow> StandardScaler_fit_transform (train_x db);
       test_x_norm \<leftarrow> StandardScaler_transform scaler (test_x db);
       let train_y = loc_labels y (condition_indices db);
       let test_y = loc_mask y (test_mask db);
       Some (train_x_norm, train_y, test_x_norm, test_y)
     }"

text \<open>
  \<^verbatim>\<open>generate_data_thickness_only\<close> keeps the columns whose name ends with
  \<^verbatim>\<open>_thickness\<close> (none of the nine named columns does), standardizes only when
  \<^verbatim>\<open>normalize\<close> is true and splits the train pool with \<^verbatim>\<open>train_test_split\<close>. It also
  writes the selected columns to a file, which changes none of the values returned and
  is not part of the model.
\<close>

definition endswith :: "string \<Rightarrow> string \<Rightarrow> bool" where
  "endswith s suffix' = (length suffix' \<le> length s \<and> drop (length s - length suffix') s = suffix')"

definition thickness_columns :: "'c dataframe \<Rightarrow> string list" where
  "thickness_columns db = filter (\<lambda>col. endswith col ''_thickness'') (feature_names db)"

definition thickness_data :: "'c dataframe \<Rightarrow> matrix" where
  "thickness_data db =
     map (\<lambda>r. map snd (filter (\<lambda>(col, v). endswith col ''_thickness'')
                         (zip (feature_names db) (features r)))) (rows db)"

text \<open>
  \<^verbatim>\<open>train_test_split(X, y, test_size=t, random_state=42)\<close> with a float \<open>t\<close>: the test
  part has \<open>\<lceil>t \<cdot> n\<rceil>\<close> of the \<open>n\<close> rows and the train part the others, in the order of a
  permutation of the rows drawn once for both matrices. scikit-learn raises when \<open>t\<close> is
  not strictly between 0 and 1 or the train part would be empty. The permutation that the
  seed 42 gives for \<open>n\<close> rows is the argument \<open>permutation n\<close>. The result is
  \<open>(X_train, X_test, y_train, y_test)\<close>.
\<close>

definition train_test_split ::
  "(nat \<Rightarrow> nat list) \<Rightarrow> matrix \<Rightarrow> matrix \<Rightarrow> real \<Rightarrow> (matrix \<times> matrix \<times> matrix \<times> matrix) option" where
  "train_test_split permutation X y test_size =
     (let n_samples = length X;
          n_test = nat \<lceil>test_size * real n_samples\<rceil>;
          n_train = n_samples - n_test
      in if length y \<noteq> n_samples \<or> test_size \<le> 0 \<or> 1 \<le> test_size \<or> n_train = 0 then None
         else let ind_test = take n_test (permutation n_samples);
                  ind_train = take n_train (drop n_test (permutation n_samples))
              in Some (loc_labels X ind_train, loc_labels X ind_test,
                       loc_labels y ind_train, loc_labels y ind_test))"

text \<open>\<^verbatim>\<open>tf.data.Dataset.from_tensor_slices((x, y))\<close>: the pairs of rows.\<close>

definition from_tensor_slices :: "matrix \<times> matrix \<Rightarrow> (vec \<times> vec) list option" where
  "from_tensor_slices t = (case t of (x, y) \<Rightarrow> if length x = length y then Some (zip x y) else None)"

definition thickness_train_x :: "'c dataframe \<Rightarrow> matrix" where
  "thickness_train_x db = loc_labels (thickness_data db) (condition_indices db)"

definition thickness_test_x :: "'c dataframe \<Rightarrow> matrix" where
  "thickness_test_x db = loc_mask (thickness_data db) (test_mask db)"

definition generate_data_thickness_only ::
  "(nat \<Rightarrow> nat list) \<Rightarrow> ('c::linorder) dataframe \<Rightarrow> real \<Rightarrow> bool
     \<Rightarrow> ((vec \<times> vec) list \<times> (vec \<times> vec) list \<times> (vec \<times> vec) list \<times> string list) option" where
  "generate_data_thickness_only permutation db validation_split normalize' =
     do {
       y \<leftarrow> y_data db;
       (train_x_norm, test_x_norm) \<leftarrow>
         (if normalize'
          then do {
            (scaler, train_x_norm) \<leftarrow> StandardScaler_fit_transform (thickness_train_x db);
            test_x_norm \<leftarrow> StandardScaler_transform scaler (thickness_test_x db);
            Some (train_x_norm, test_x_norm)
          }
          else Some (thickness_train_x db, thickness_test_x db));
       let train_y = loc_labels y (condition_indices db);
       let test_y = loc_mask y (test_mask db);
       (train_x', val_x, train_y', val_y) \<leftarrow>
         train_test_split permutation train_x_norm train_y validation_split;
       val \<leftarrow> from_tensor_slices (val_x, val_y);
       train \<leftarrow> from_tensor_slices (train_x', train_y');
       test \<leftarrow> from_tensor_slices (test_x_norm, test_y);
       Some (train, val, test, thickness_columns db)
     }"

section \<open>The hyperparameter grid and the cross-validator\<close>

text \<open>
  Modelled from the spec: \<^verbatim>\<open>create_param_grid\<close> and \<^verbatim>\<open>VAECrossValidator\<close> are imported from
  \<^verbatim>\<open>modelUtils.vae_utils\<close>, which is not among the source files;
  \<^verbatim>\<open>src/latent_dimensionality_exploration.py\<close> only calls them. The specification says:
  the grid is the Cartesian product over the hidden-layer-width lists, the latent
  dimensions, the dropout rates, the activation names, the initializer names and the
  betas, and each grid point is one training configuration.
\<close>

record grid_point =
  gp_hidden_dims :: "nat list"
  gp_latent_dim :: nat
  gp_dropout :: real
  gp_activation :: string
  gp_initializer :: string
  gp_beta :: real

definition create_param_grid ::
  "nat list list \<Rightarrow> nat list \<Rightarrow> real list \<Rightarrow> string list \<Rightarrow> string list \<Rightarrow> real list
     \<Rightarrow> grid_point list" where
  "create_param_grid hidden_dims latent_dims dropout activations initializers betas =
     [\<lparr>gp_hidden_dims = h, gp_latent_dim = l, gp_dropout = d, gp_activation = a,
       gp_initializer = i, gp_beta = b\<rparr>.
        h \<leftarrow> hidden_dims, l \<leftarrow> latent_dims, d \<leftarrow> dropout, a \<leftarrow> activations,
        i \<leftarrow> initializers, b \<leftarrow> betas]"

text \<open>
  Modelled from the spec: the cross-validator (\<^verbatim>\<open>VAECrossValidator.cross_validate\<close>, not
  among the source files). The specification says: for each combination, partition the
  training set into \<open>k\<close> folds, train a fresh model on the union of the other \<open>k - 1\<close> folds,
  evaluate on the held-out fold and record the loss history of the epochs; the result
  is, per grid point, a mapping from fold index to training history. How the folds are
  cut (contiguous or shuffled) and how a model is trained are left open there: \<open>folds\<close>
  cuts the training set into \<open>k\<close> folds and \<open>fit\<close> trains on a training part, evaluates on
  a held-out part and returns the history. The constructor arguments are those of the
  call \<^verbatim>\<open>VAECrossValidator(param_grid, input_dim, 5, batch_size=128)\<close>.
\<close>

record VAECrossValidator =
  param_grid :: "grid_point list"
  input_dim :: nat
  k_folds :: nat
  batch_size :: nat

definition cross_validate ::
  "VAECrossValidator \<Rightarrow> (nat \<Rightarrow> 's list \<Rightarrow> 's list list)
     \<Rightarrow> (grid_point \<Rightarrow> 's list \<Rightarrow> 's list \<Rightarrow> nat \<Rightarrow> 'h)
     \<Rightarrow> 's list \<Rightarrow> nat \<Rightarrow> (grid_point \<times> (nat \<times> 'h) list) list" where
  "cross_validate self folds fit train_data epochs =
     map (\<lambda>p.
           (p, map (\<lambda>i.
                     let parts = folds (k_folds self) train_data;
                         held_out = parts ! i;
                         training = concat (take i parts @ drop (Suc i) parts)
                     in (i, fit p training held_out epochs))
                   [0..<k_folds self]))
         (param_grid self)"

section \<open>Properties of the KL term\<close>

lemma kl_entry_nonneg: "0 \<le> - 0.5 * (1 + l - m\<^sup>2 - exp l)" for l m :: real
proof -
  have "1 + l \<le> exp l" by (rule exp_ge_add_one_self)
  moreover have "0 \<le> m\<^sup>2" by simp
  ultimately have "1 + l - m\<^sup>2 - exp l \<le> 0" by linarith
  then show ?thesis by simp
qed

lemma spec_kl_term_Cons:
  "spec_kl_term (b # m) (a # l) = - 0.5 * (1 + a - b\<^sup>2 - exp a) + spec_kl_term m l"
  by (simp add: spec_kl_term_def algebra_simps)

lemma kl_row_eq:
  "sum_list (map (\<lambda>v. - 0.5 * v)
      (map2 (-) (map2 (-) (map (\<lambda>v. 1 + v) l) (map (\<lambda>v. v\<^sup>2) m)) (map exp l)))
   = spec_kl_term m l"
proof (induction m l rule: list_induct2')
  case (4 x xs y ys)
  then show ?case by (simp add: spec_kl_term_Cons)
qed (simp_all add: spec_kl_term_def)

lemma kl_rows_eq:
  "reduce_sum_axis1 (mat_map (\<lambda>v. - 0.5 * v)
      (mat_map2 (-) (mat_map2 (-) (mat_map (\<lambda>v. 1 + v) lv) (mat_map (\<lambda>v. v\<^sup>2) mu))
         (mat_map exp lv)))
   = map2 spec_kl_term mu lv"
proof -
  have "map sum_list (map (map (\<lambda>v. - 0.5 * v))
      (map2 (map2 (-)) (map2 (map2 (-)) (map (map (\<lambda>v. 1 + v)) lv) (map (map (\<lambda>v. v\<^sup>2)) mu))
         (map (map exp) lv)))
   = map2 spec_kl_term mu lv"
  proof (induction mu lv rule: list_induct2')
    case (4 x xs y ys)
    from kl_row_eq [of y x] 4 show ?case by simp
  qed simp_all
  then show ?thesis
    unfolding reduce_sum_axis1_def mat_map_def mat_map2_def .
qed

lemma calc_kl_loss_eq: "calc_kl_loss mu lv = reduce_mean (map2 spec_kl_term mu lv)"
  unfolding calc_kl_loss_def Let_def kl_rows_eq ..

lemma spec_kl_term_nonneg: "0 \<le> spec_kl_term m l"
proof -
  have "sum_list (map2 (\<lambda>m l. 1 + l - m\<^sup>2 - exp l) m l) \<le> 0"
  proof (rule sum_list_nonpos)
    fix x assume "x \<in> set (map2 (\<lambda>m l. 1 + l - m\<^sup>2 - exp l) m l)"
    then obtain a b where "x = 1 + b - a\<^sup>2 - exp b" by auto
    with kl_entry_nonneg [of b a] show "x \<le> 0" by simp
  qed
  then show ?thesis by (simp add: spec_kl_term_def)
qed

lemma reduce_mean_nonneg: "(\<And>x. x \<in> set v \<Longrightarrow> 0 \<le> x) \<Longrightarrow> 0 \<le> reduce_mean v"
  by (simp add: reduce_mean_def sum_list_nonneg)

text \<open>
  C3: for latent mean and log-variance matrices of one shape and a non-empty batch, the
  value of \<open>calc_kl_loss\<close> is at least 0 in exact real arithmetic.
\<close>

theorem calc_kl_loss_nonneg:
  assumes "same_shape mu log_var" and "mu \<noteq> []"
  shows "0 \<le> calc_kl_loss mu log_var"
proof -
  have "0 \<le> reduce_mean (map2 spec_kl_term mu log_var)"
  proof (rule reduce_mean_nonneg)
    fix x assume "x \<in> set (map2 spec_kl_term mu log_var)"
    then obtain a b where "x = spec_kl_term a b" by auto
    then show "0 \<le> x" by (simp add: spec_kl_term_nonneg)
  qed
  then show ?thesis by (simp add: calc_kl_loss_eq)
qed

theorem calc_kl_loss_nonneg_witness:
  "same_shape [[0, 1]] [[0, 0]] \<and> [[0, 1 :: real]] \<noteq> [] \<and> calc_kl_loss [[0, 1]] [[0, 0]] = 1 / 2
   \<and> 0 \<le> calc_kl_loss [[0, 1]] [[0, 0]]"
proof -
  have s: "same_shape [[0, 1]] [[0, 0]]" by (simp add: same_shape_def)
  have n: "[[0, 1 :: real]] \<noteq> []" by simp
  have v: "calc_kl_loss [[0, 1]] [[0, 0]] = 1 / 2"
    by (simp add: calc_kl_loss_def mat_map_def mat_map2_def reduce_sum_axis1_def reduce_mean_def)
  from s n v calc_kl_loss_nonneg [OF s n] show ?thesis by simp
qed

section \<open>Properties of the encoder\<close>

lemma length_apply_activation: "length (apply_activation a v) = length v"
  by (cases a) (simp_all add: softmax_def)

lemma dense_call_shape:
  assumes "dense_call l w X = Some Y"
  shows "length Y = length X" and "\<And>r. r \<in> set Y \<Longrightarrow> length r = units l"
  using assms
  by (auto simp: dense_call_def length_apply_activation split: prod.splits if_splits)

lemma split2_axis1_same_shape:
  assumes "split2_axis1 z = Some (zm, zlv)"
  shows "same_shape zm zlv"
proof -
  from assms have ev: "\<forall>r \<in> set z. even (length r)"
    and zm: "zm = map (\<lambda>r. take (length r div 2) r) z"
    and zlv: "zlv = map (\<lambda>r. drop (length r div 2) r) z"
    by (auto simp: split2_axis1_def split: if_splits)
  have "list_all2 (\<lambda>a b. length a = length b)
          (map (\<lambda>r. take (length r div 2) r) z) (map (\<lambda>r. drop (length r div 2) r) z)"
    using ev by (induction z) auto
  then show ?thesis by (simp add: same_shape_def zm zlv)
qed

lemma shape1_uniform: "A \<noteq> [] \<Longrightarrow> (\<And>r. r \<in> set A \<Longrightarrow> length r = n) \<Longrightarrow> shape1 A = n"
  by (cases A) (simp_all add: shape1_def)

lemma sample_nth:
  assumes "same_shape zm zlv" and "\<And>r. r \<in> set zm \<Longrightarrow> length r = n"
    and "i < length zm" and "j < n"
  shows "mat_map2 (+) zm (mat_map2 (*) (mat_map exp (mat_map (\<lambda>v. 0.5 * v) zlv))
            (random_normal noise (length zm) n)) ! i ! j
         = zm ! i ! j + exp (0.5 * zlv ! i ! j) * noise i j"
proof -
  from assms(1) have len: "length zlv = length zm"
    and rows: "length (zlv ! i) = length (zm ! i)"
    using assms(3) by (auto simp: same_shape_def list_all2_conv_all_nth)
  from assms(2,3) have li: "length (zm ! i) = n" by simp
  show ?thesis
    using assms(3,4) len rows li
    by (simp add: mat_map2_def mat_map_def random_normal_def)
qed

lemma sample_shape:
  assumes "same_shape zm zlv" and "\<And>r. r \<in> set zm \<Longrightarrow> length r = n"
  shows "length (mat_map2 (+) zm (mat_map2 (*) (mat_map exp (mat_map (\<lambda>v. 0.5 * v) zlv))
            (random_normal noise (length zm) n))) = length zm"
    and "i < length zm \<Longrightarrow>
         length (mat_map2 (+) zm (mat_map2 (*) (mat_map exp (mat_map (\<lambda>v. 0.5 * v) zlv))
            (random_normal noise (length zm) n)) ! i) = length (zm ! i)"
proof -
  from assms(1) have len: "length zlv = length zm"
    by (auto simp: same_shape_def list_all2_conv_all_nth)
  show "length (mat_map2 (+) zm (mat_map2 (*) (mat_map exp (mat_map (\<lambda>v. 0.5 * v) zlv))
            (random_normal noise (length zm) n))) = length zm"
    using len by (simp add: mat_map2_def mat_map_def random_normal_def)
  assume i: "i < length zm"
  with assms(1) have rows: "length (zlv ! i) = length (zm ! i)"
    by (auto simp: same_shape_def list_all2_conv_all_nth)
  from assms(2) i have li: "length (zm ! i) = n" by simp
  show "length (mat_map2 (+) zm (mat_map2 (*) (mat_map exp (mat_map (\<lambda>v. 0.5 * v) zlv))
            (random_normal noise (length zm) n)) ! i) = length (zm ! i)"
    using i len rows li by (simp add: mat_map2_def mat_map_def random_normal_def)
qed

lemma VAEEncoder_call_SomeD:
  assumes "VAEEncoder_call enc w noise inputs = Some (z_mean, z_log_var, z, y)"
  obtains x z0 where "call_layers (hidden_layers enc) (hidden_w w) inputs = Some x"
    and "dense_call (latent_layer enc) (latent_w w) x = Some z0"
    and "split2_axis1 z0 = Some (z_mean, z_log_var)"
    and "z = mat_map2 (+) z_mean (mat_map2 (*) (mat_map exp (mat_map (\<lambda>v. 0.5 * v) z_log_var))
            (random_normal noise (length z_mean) (shape1 z_mean)))"
    and "dense_call (y_layer enc) (y_w w) x = Some y"
  using assms
  by (auto simp: VAEEncoder_call_def Let_def bind_eq_Some_conv split: prod.splits)


lemma split2_axis1_left_rows:
  assumes "split2_axis1 z = Some (zm, zlv)" and "\<And>r. r \<in> set z \<Longrightarrow> length r = u"
  shows "length zm = length z" and "\<And>r. r \<in> set zm \<Longrightarrow> length r = u div 2"
  using assms by (auto simp: split2_axis1_def split: if_splits)

text \<open>
  C4: the stochastic latent sample that the encoder returns is, entry by entry,
  \<open>z_mean + exp (0.5 * z_log_var) * epsilon\<close>, with \<open>epsilon\<close> the noise drawn for that
  entry; when the noise is zero everywhere the sample is the latent mean.
\<close>

theorem reparameterization_sample:
  assumes "VAEEncoder_call enc w noise inputs = Some (z_mean, z_log_var, z, y)"
  shows "same_shape z_mean z_log_var \<and> length z = length z_mean
     \<and> (\<forall>i<length z_mean. length (z ! i) = length (z_mean ! i)
          \<and> (\<forall>j<length (z_mean ! i).
                z ! i ! j = z_mean ! i ! j + exp (0.5 * z_log_var ! i ! j) * noise i j))
     \<and> ((\<forall>i j. noise i j = 0) \<longrightarrow> z = z_mean)"
proof -
  from assms obtain x z0 where
    lat: "dense_call (latent_layer enc) (latent_w w) x = Some z0"
    and sp: "split2_axis1 z0 = Some (z_mean, z_log_var)"
    and z: "z = mat_map2 (+) z_mean
              (mat_map2 (*) (mat_map exp (mat_map (\<lambda>v. 0.5 * v) z_log_var))
                 (random_normal noise (length z_mean) (shape1 z_mean)))"
    by (rule VAEEncoder_call_SomeD)
  define n where "n = units (latent_layer enc) div 2"
  have rows: "\<And>r. r \<in> set z_mean \<Longrightarrow> length r = n"
    unfolding n_def using split2_axis1_left_rows(2) [OF sp] dense_call_shape(2) [OF lat] by blast
  have ss: "same_shape z_mean z_log_var"
    using sp by (rule split2_axis1_same_shape)
  have len: "length z = length z_mean"
  proof (cases "z_mean = []")
    case True
    then show ?thesis by (simp add: z mat_map2_def)
  next
    case False
    then have "shape1 z_mean = n" using rows by (rule shape1_uniform)
    then show ?thesis using sample_shape(1) [OF ss rows] by (simp add: z)
  qed
  have pt: "length (z ! i) = length (z_mean ! i)
      \<and> (\<forall>j<length (z_mean ! i).
            z ! i ! j = z_mean ! i ! j + exp (0.5 * z_log_var ! i ! j) * noise i j)"
    if i: "i < length z_mean" for i
  proof -
    from i have ne: "z_mean \<noteq> []" by auto
    then have s1: "shape1 z_mean = n" using rows by (rule shape1_uniform)
    from i rows have li: "length (z_mean ! i) = n" by simp
    have "length (z ! i) = length (z_mean ! i)"
      using sample_shape(2) [OF ss rows i] by (simp add: z s1)
    moreover have "z ! i ! j = z_mean ! i ! j + exp (0.5 * z_log_var ! i ! j) * noise i j"
      if "j < length (z_mean ! i)" for j
      using sample_nth [OF ss rows i, of j noise] that li by (simp add: z s1)
    ultimately show ?thesis by blast
  qed
  have zero: "z = z_mean" if "\<forall>i j. noise i j = 0"
  proof (rule nth_equalityI [OF len])
    fix i assume "i < length z"
    with len have i: "i < length z_mean" by simp
    show "z ! i = z_mean ! i"
    proof (rule nth_equalityI)
      show "length (z ! i) = length (z_mean ! i)" using pt [OF i] by blast
    next
      fix j assume "j < length (z ! i)"
      with pt [OF i] have "j < length (z_mean ! i)" by simp
      with pt [OF i] that show "z ! i ! j = z_mean ! i ! j" by simp
    qed
  qed
  from ss len pt zero show ?thesis by blast
qed


theorem reparameterization_sample_witness:
  "VAEEncoder_call (VAEEncoder_init [] 1 1 (1 / 1000))
       \<lparr>hidden_w = [], y_w = ([[0]], [0]), latent_w = ([[0, 0]], [0, 0])\<rparr>
       (\<lambda>i j. 3) [[1]]
     = Some ([[0]], [[0]], [[3]], [[1]])
   \<and> [[3 :: real]] ! 0 ! 0 = [[0]] ! 0 ! 0 + exp (0.5 * [[0]] ! 0 ! 0) * 3"
proof -
  have h: "VAEEncoder_call (VAEEncoder_init [] 1 1 (1 / 1000))
       \<lparr>hidden_w = [], y_w = ([[0]], [0]), latent_w = ([[0, 0]], [0, 0])\<rparr>
       (\<lambda>i j. 3) [[1]]
     = Some ([[0]], [[0]], [[3]], [[1]])"
    by (simp add: VAEEncoder_call_def VAEEncoder_init_def dense_call_def dot_col_def
      split2_axis1_def random_normal_def mat_map_def mat_map2_def shape1_def selu_def
      softmax_def numeral_2_eq_2)
  from reparameterization_sample [OF h] have
    "\<forall>i<length [[0::real]]. \<forall>j<length ([[0::real]] ! i).
       [[3 :: real]] ! i ! j = [[0]] ! i ! j + exp (0.5 * [[0]] ! i ! j) * 3"
    by blast
  then have "[[3 :: real]] ! 0 ! 0 = [[0]] ! 0 ! 0 + exp (0.5 * [[0]] ! 0 ! 0) * 3"
    by simp
  with h show ?thesis by blast
qed

lemma upt_2: "[0..<2] = [0, 1]"
  by (simp add: numeral_2_eq_2)

text \<open>
  C6: the encoder's final layer for the latent mean and log-variance should be linear,
  as the docstring of the class says, and its classification layer a softmax. The
  constructor does build the classification layer with the softmax, and builds the latent
  layer with the SELU activation: on the input \<open>[[1]]\<close> with latent kernel \<open>[[1, 0]]\<close> and
  zero bias, where a linear layer gives the latent mean 1, the encoder returns
  \<open>selu_scale\<close>, which is not 1.
\<close>

theorem latent_layer_is_selu:
  "activation (latent_layer (VAEEncoder_init h l y r)) = Selu
   \<and> activation (y_layer (VAEEncoder_init h l y r)) = Softmax
   \<and> VAEEncoder_call (VAEEncoder_init [] 1 1 (1 / 1000))
        \<lparr>hidden_w = [], y_w = ([[0]], [0]), latent_w = ([[1, 0]], [0, 0])\<rparr>
        (\<lambda>i j. 0) [[1]]
      = Some ([[selu_scale]], [[0]], [[selu_scale]], [[1]])
   \<and> dot_col [1] [[1, 0]] 0 + [0, 0] ! 0 = 1
   \<and> selu_scale \<noteq> 1"
proof -
  have "VAEEncoder_call (VAEEncoder_init [] 1 1 (1 / 1000))
        \<lparr>hidden_w = [], y_w = ([[0]], [0]), latent_w = ([[1, 0]], [0, 0])\<rparr>
        (\<lambda>i j. 0) [[1]]
      = Some ([[selu_scale]], [[0]], [[selu_scale]], [[1]])"
    by (simp add: VAEEncoder_call_def VAEEncoder_init_def dense_call_def dot_col_def
      split2_axis1_def random_normal_def mat_map_def mat_map2_def shape1_def selu_def
      softmax_def upt_2)
  moreover have "selu_scale \<noteq> 1" by (simp add: selu_scale_def)
  moreover have "dot_col [1] [[1, 0]] 0 + [0, 0] ! 0 = 1" by (simp add: dot_col_def)
  ultimately show ?thesis by (simp add: VAEEncoder_init_def)
qed

theorem latent_layer_is_selu_witness:
  "activation (latent_layer (VAEEncoder_init [100, 100] 10 5 (1 / 1000))) = Selu
   \<and> activation (latent_layer (VAEEncoder_init [100, 100] 10 5 (1 / 1000))) \<noteq> Linear"
  using latent_layer_is_selu [of "[100, 100]" 10 5 "1 / 1000"] by simp

section \<open>Properties of the decoder and of the composite model\<close>

lemma call_layers_Nil_Some: "call_layers [] ws x = Some out \<Longrightarrow> ws = [] \<and> out = x"
  by (cases ws) simp_all

lemma call_layers_snoc:
  assumes "call_layers (ls @ [l]) ws x = Some out"
  shows "ws \<noteq> [] \<and> (\<exists>hid. call_layers ls (butlast ws) x = Some hid
            \<and> dense_call l (last ws) hid = Some out)"
  using assms
proof (induction ls arbitrary: ws x)
  case Nil
  then obtain w ws' where ws: "ws = w # ws'" by (cases ws) auto
  with Nil obtain x' where d: "dense_call l w x = Some x'"
    and r: "call_layers [] ws' x' = Some out"
    by (auto simp: bind_eq_Some_conv)
  from call_layers_Nil_Some [OF r] d ws show ?case by simp
next
  case (Cons l' ls)
  then obtain w ws' where ws: "ws = w # ws'" by (cases ws) auto
  with Cons.prems obtain x' where d: "dense_call l' w x = Some x'"
    and r: "call_layers (ls @ [l]) ws' x' = Some out"
    by (auto simp: bind_eq_Some_conv)
  from Cons.IH [OF r] obtain hid where ne: "ws' \<noteq> []"
    and h: "call_layers ls (butlast ws') x' = Some hid"
    and o: "dense_call l (last ws') hid = Some out"
    by blast
  from ne h o d ws show ?case by (simp add: bind_eq_Some_conv)
qed







lemma VAEDecoder_call_last:
  assumes "VAEDecoder_call (VAEDecoder_init h out r) ws inputs = Some X"
  shows "ws \<noteq> [] \<and> (\<exists>hid. call_layers (map (selu_layer r) h) (butlast ws) inputs = Some hid
     \<and> dense_call (last (dense_layers (VAEDecoder_init h out r))) (last ws) hid = Some X)"
  using assms call_layers_snoc [of "map (selu_layer r) h" _ ws inputs X]
  by (simp add: VAEDecoder_call_def VAEDecoder_init_def)

lemma VAEDecoder_last_layer:
  "units (last (dense_layers (VAEDecoder_init h out r))) = out"
  "activation (last (dense_layers (VAEDecoder_init h out r))) = Softmax"
  by (simp_all add: VAEDecoder_init_def)






text \<open>
  C7: in the forward pass of the composite model the decoder is called on the
  concatenation, along axis 1, of the encoder's stochastic sample \<open>z\<close> and the label
  matrix \<open>y\<close> of the batch, and the reconstruction is the output of the decoder's last
  dense layer, whose activation is the softmax, applied to the output of the layers
  before it.
\<close>

theorem decoder_input_is_sample_and_label:
  assumes "VAE_call vae w noise (x, y) = Some (z_mean, z_log_var, z, y_hat, x_reconstructed)"
    and "decoder vae = VAEDecoder_init h out r"
  shows "VAEEncoder_call (encoder vae) (encoder_w w) noise x = Some (z_mean, z_log_var, z, y_hat)
     \<and> length z = length y
     \<and> VAEDecoder_call (decoder vae) (decoder_w w) (map2 (@) z y) = Some x_reconstructed
     \<and> decoder_w w \<noteq> []
     \<and> activation (last (dense_layers (decoder vae))) = Softmax
     \<and> units (last (dense_layers (decoder vae))) = out
     \<and> (\<exists>hid. call_layers (butlast (dense_layers (decoder vae))) (butlast (decoder_w w))
                 (map2 (@) z y) = Some hid
            \<and> dense_call (last (dense_layers (decoder vae))) (last (decoder_w w)) hid
                 = Some x_reconstructed)"
proof -
  from assms(1) have e: "VAEEncoder_call (encoder vae) (encoder_w w) noise x
      = Some (z_mean, z_log_var, z, y_hat)"
    and l: "length z = length y"
    and d: "VAEDecoder_call (decoder vae) (decoder_w w) (map2 (@) z y) = Some x_reconstructed"
    by (auto simp: VAE_call_def concat_axis1_def bind_eq_Some_conv split: if_splits)
  have bl: "butlast (dense_layers (VAEDecoder_init h out r)) = map (selu_layer r) h"
    by (simp add: VAEDecoder_init_def)
  from VAEDecoder_call_last [OF d [unfolded assms(2)]] e l d VAEDecoder_last_layer [of h out r]
  show ?thesis by (simp add: assms(2) bl)
qed

theorem decoder_input_is_sample_and_label_witness:
  "VAE_call (VAE_init (VAEEncoder_init [] 1 1 (1 / 1000)) (VAEDecoder_init [] 1 (1 / 1000)))
      \<lparr>encoder_w = \<lparr>hidden_w = [], y_w = ([[0]], [0]), latent_w = ([[0, 0]], [0, 0])\<rparr>,
       decoder_w = [([[0], [0]], [0])]\<rparr>
      (\<lambda>i j. 3) ([[1]], [[1]])
    = Some ([[0]], [[0]], [[3]], [[1]], [[1]])
   \<and> decoder (VAE_init (VAEEncoder_init [] 1 1 (1 / 1000)) (VAEDecoder_init [] 1 (1 / 1000)))
      = VAEDecoder_init [] 1 (1 / 1000)
   \<and> VAEDecoder_call (VAEDecoder_init [] 1 (1 / 1000)) [([[0], [0]], [0])] [[3, 1]] = Some [[1]]"
proof -
  have h: "VAE_call (VAE_init (VAEEncoder_init [] 1 1 (1 / 1000)) (VAEDecoder_init [] 1 (1 / 1000)))
      \<lparr>encoder_w = \<lparr>hidden_w = [], y_w = ([[0]], [0]), latent_w = ([[0, 0]], [0, 0])\<rparr>,
       decoder_w = [([[0], [0]], [0])]\<rparr>
      (\<lambda>i j. 3) ([[1]], [[1]])
    = Some ([[0]], [[0]], [[3]], [[1]], [[1]])"
    by (simp add: VAE_call_def VAE_init_def concat_axis1_def VAEDecoder_call_def
        VAEEncoder_call_def VAEEncoder_init_def VAEDecoder_init_def dense_call_def dot_col_def
        split2_axis1_def random_normal_def mat_map_def mat_map2_def shape1_def selu_def
        softmax_def upt_2)
  have d: "decoder (VAE_init (VAEEncoder_init [] 1 1 (1 / 1000)) (VAEDecoder_init [] 1 (1 / 1000)))
      = VAEDecoder_init [] 1 (1 / 1000)"
    by (simp add: VAE_init_def)
  from decoder_input_is_sample_and_label [OF h d] h d show ?thesis
    by (simp add: VAE_init_def)
qed

section \<open>Configuration round trip\<close>

lemma VAEEncoder_round_trip:
  "VAEEncoder_from_config (VAEEncoder_get_config enc)
     = Some (VAEEncoder_init (hidden_dim enc) (latent_dim enc) (y_dim enc) (l2_reg enc))"
  by (simp add: VAEEncoder_from_config_def VAEEncoder_get_config_def)

lemma VAEDecoder_round_trip:
  "VAEDecoder_from_config (VAEDecoder_get_config dec)
     = Some (VAEDecoder_init (hidden_dim dec) (output_dim dec) (l2_reg dec))"
  by (simp add: VAEDecoder_from_config_def VAEDecoder_get_config_def)

lemma VAE_round_trip:
  "VAE_from_config (VAE_get_config vae)
     = Some (VAE_init
         (VAEEncoder_init (hidden_dim (encoder vae)) (latent_dim (encoder vae))
            (y_dim (encoder vae)) (l2_reg (encoder vae)))
         (VAEDecoder_init (hidden_dim (decoder vae)) (output_dim (decoder vae))
            (l2_reg (decoder vae))))"
  by (simp add: VAE_from_config_def VAE_get_config_def VAEEncoder_round_trip
      VAEDecoder_round_trip)

lemma VAEEncoder_init_sel:
  "hidden_dim (VAEEncoder_init h l y r) = h" "latent_dim (VAEEncoder_init h l y r) = l"
  "y_dim (VAEEncoder_init h l y r) = y" "l2_reg (VAEEncoder_init h l y r) = r"
  by (simp_all add: VAEEncoder_init_def)

lemma VAEDecoder_init_sel:
  "hidden_dim (VAEDecoder_init h out r) = h" "output_dim (VAEDecoder_init h out r) = out"
  "l2_reg (VAEDecoder_init h out r) = r"
  by (simp_all add: VAEDecoder_init_def)

text \<open>
  C10: for an encoder, a decoder and a composite model, \<open>from_config\<close> of \<open>get_config\<close>
  returns a model with the same hyperparameters (\<open>hidden_dim\<close>, \<open>latent_dim\<close>, \<open>y_dim\<close>,
  \<open>output_dim\<close>, \<open>l2_reg\<close>, also of the nested encoder and decoder) and the same
  configuration.
\<close>

theorem config_round_trip:
  "(\<exists>e. VAEEncoder_from_config (VAEEncoder_get_config enc) = Some e
        \<and> hidden_dim e = hidden_dim enc \<and> latent_dim e = latent_dim enc
        \<and> y_dim e = y_dim enc \<and> l2_reg e = l2_reg enc
        \<and> VAEEncoder_get_config e = VAEEncoder_get_config enc)
   \<and> (\<exists>d. VAEDecoder_from_config (VAEDecoder_get_config dec) = Some d
        \<and> hidden_dim d = hidden_dim dec \<and> output_dim d = output_dim dec
        \<and> l2_reg d = l2_reg dec
        \<and> VAEDecoder_get_config d = VAEDecoder_get_config dec)
   \<and> (\<exists>v. VAE_from_config (VAE_get_config vae) = Some v
        \<and> hidden_dim (encoder v) = hidden_dim (encoder vae)
        \<and> latent_dim (encoder v) = latent_dim (encoder vae)
        \<and> y_dim (encoder v) = y_dim (encoder vae)
        \<and> l2_reg (encoder v) = l2_reg (encoder vae)
        \<and> hidden_dim (decoder v) = hidden_dim (decoder vae)
        \<and> output_dim (decoder v) = output_dim (decoder vae)
        \<and> l2_reg (decoder v) = l2_reg (decoder vae)
        \<and> VAE_get_config v = VAE_get_config vae)"
proof (intro conjI)
  show "\<exists>e. VAEEncoder_from_config (VAEEncoder_get_config enc) = Some e
        \<and> hidden_dim e = hidden_dim enc \<and> latent_dim e = latent_dim enc
        \<and> y_dim e = y_dim enc \<and> l2_reg e = l2_reg enc
        \<and> VAEEncoder_get_config e = VAEEncoder_get_config enc"
    unfolding VAEEncoder_round_trip
    by (simp add: VAEEncoder_init_sel VAEEncoder_get_config_def)
  show "\<exists>d. VAEDecoder_from_config (VAEDecoder_get_config dec) = Some d
        \<and> hidden_dim d = hidden_dim dec \<and> output_dim d = output_dim dec
        \<and> l2_reg d = l2_reg dec
        \<and> VAEDecoder_get_config d = VAEDecoder_get_config dec"
    unfolding VAEDecoder_round_trip
    by (simp add: VAEDecoder_init_sel VAEDecoder_get_config_def)
  show "\<exists>v. VAE_from_config (VAE_get_config vae) = Some v
        \<and> hidden_dim (encoder v) = hidden_dim (encoder vae)
        \<and> latent_dim (encoder v) = latent_dim (encoder vae)
        \<and> y_dim (encoder v) = y_dim (encoder vae)
        \<and> l2_reg (encoder v) = l2_reg (encoder vae)
        \<and> hidden_dim (decoder v) = hidden_dim (decoder vae)
        \<and> output_dim (decoder v) = output_dim (decoder vae)
        \<and> l2_reg (decoder v) = l2_reg (decoder vae)
        \<and> VAE_get_config v = VAE_get_config vae"
    unfolding VAE_round_trip
    by (simp add: VAE_init_def VAEEncoder_init_sel VAEDecoder_init_sel
        VAE_get_config_def VAEEncoder_get_config_def VAEDecoder_get_config_def)
qed

theorem config_round_trip_witness:
  "VAEEncoder_from_config (VAEEncoder_get_config (VAEEncoder_init [100, 100] 10 5 (1 / 1000)))
     = Some (VAEEncoder_init [100, 100] 10 5 (1 / 1000))
   \<and> VAEDecoder_from_config (VAEDecoder_get_config (VAEDecoder_init [100, 100] 20 (1 / 1000)))
     = Some (VAEDecoder_init [100, 100] 20 (1 / 1000))
   \<and> VAE_from_config (VAE_get_config (VAE_init (VAEEncoder_init [100, 100] 10 5 (1 / 1000))
         (VAEDecoder_init [100, 100] 20 (1 / 1000))))
     = Some (VAE_init (VAEEncoder_init [100, 100] 10 5 (1 / 1000))
         (VAEDecoder_init [100, 100] 20 (1 / 1000)))"
  using config_round_trip [of "VAEEncoder_init [100, 100] 10 5 (1 / 1000)"
      "VAEDecoder_init [100, 100] 20 (1 / 1000)"
      "VAE_init (VAEEncoder_init [100, 100] 10 5 (1 / 1000))
         (VAEDecoder_init [100, 100] 20 (1 / 1000))"]
  by (simp add: VAE_round_trip VAEEncoder_round_trip VAEDecoder_round_trip
      VAEEncoder_init_sel VAEDecoder_init_sel VAE_init_def)

section \<open>The training loss\<close>

text \<open>
  C1: for a model compiled with \<open>calc_kl_loss\<close> as its KL loss, the total loss that
  \<open>train_step\<close> computes on a mini-batch \<open>(x, y)\<close> is the reconstruction loss of \<open>x\<close> and
  its reconstruction, plus the mean over the batch of the KL term of each example, plus
  the classification loss of \<open>y\<close> and the predicted classes; the KL term is added with
  factor 1 (no beta).
\<close>

theorem train_step_total_loss:
  assumes "kl_loss_fn vae = Some default_kl_loss_fn"
    and "train_step vae w noise (x, y) = Some m"
  shows "\<exists>rec_fn y_fn z_mean z_log_var z y_hat x_reconstructed.
      reconstruction_loss_fn vae = Some rec_fn \<and> y_loss_fn vae = Some y_fn
    \<and> VAE_call vae w noise (x, y) = Some (z_mean, z_log_var, z, y_hat, x_reconstructed)
    \<and> kl_loss m = reduce_mean (map2 spec_kl_term z_mean z_log_var)
    \<and> total_loss m = rec_fn x x_reconstructed
         + reduce_mean (map2 spec_kl_term z_mean z_log_var)
         + y_fn y y_hat"
proof -
  from assms(2) have "\<exists>z_mean z_log_var z y_hat x_reconstructed rec_fn kl_fn y_fn.
      VAE_call vae w noise (x, y) = Some (z_mean, z_log_var, z, y_hat, x_reconstructed)
    \<and> reconstruction_loss_fn vae = Some rec_fn \<and> kl_loss_fn vae = Some kl_fn
    \<and> y_loss_fn vae = Some y_fn
    \<and> kl_loss m = tf_reduce_mean (kl_fn z_mean z_log_var)
    \<and> total_loss m = rec_fn x x_reconstructed
         + tf_reduce_mean (kl_fn z_mean z_log_var) + y_fn y y_hat"
    by (auto simp: train_step_def Let_def bind_eq_Some_conv)
  then obtain z_mean z_log_var z y_hat x_reconstructed rec_fn kl_fn y_fn where
    c: "VAE_call vae w noise (x, y) = Some (z_mean, z_log_var, z, y_hat, x_reconstructed)"
    and r: "reconstruction_loss_fn vae = Some rec_fn"
    and k: "kl_loss_fn vae = Some kl_fn"
    and yf: "y_loss_fn vae = Some y_fn"
    and klm: "kl_loss m = tf_reduce_mean (kl_fn z_mean z_log_var)"
    and tot: "total_loss m = rec_fn x x_reconstructed
         + tf_reduce_mean (kl_fn z_mean z_log_var) + y_fn y y_hat"
    by blast
  from k assms(1) have kf: "kl_fn = default_kl_loss_fn" by simp
  have kl: "tf_reduce_mean (kl_fn z_mean z_log_var) = reduce_mean (map2 spec_kl_term z_mean z_log_var)"
    by (simp add: kf default_kl_loss_fn_def calc_kl_loss_eq)
  from c r yf klm tot show ?thesis
    unfolding kl by blast
qed

theorem train_step_total_loss_witness:
  "kl_loss_fn (VAE_compile
       (VAE_init (VAEEncoder_init [] 1 1 (1 / 1000)) (VAEDecoder_init [] 1 (1 / 1000)))
       \<lparr>lr = 1 / 1000\<rparr> MeanSquaredError default_kl_loss_fn MeanSquaredError)
     = Some default_kl_loss_fn
   \<and> train_step (VAE_compile
       (VAE_init (VAEEncoder_init [] 1 1 (1 / 1000)) (VAEDecoder_init [] 1 (1 / 1000)))
       \<lparr>lr = 1 / 1000\<rparr> MeanSquaredError default_kl_loss_fn MeanSquaredError)
      \<lparr>encoder_w = \<lparr>hidden_w = [], y_w = ([[0]], [0]), latent_w = ([[1 / 3, 0]], [0, 0])\<rparr>,
       decoder_w = [([[0], [0]], [0])]\<rparr>
      (\<lambda>i j. 3) ([[3]], [[0]])
     = Some \<lparr>reconstruction_loss = 4, kl_loss = selu_scale\<^sup>2 / 2, y_loss = 1,
             total_loss = 4 + selu_scale\<^sup>2 / 2 + 1, metric_lr = 1 / 1000\<rparr>
   \<and> spec_kl_term [selu_scale] [0] = selu_scale\<^sup>2 / 2"
proof -
  let ?vae = "VAE_compile
       (VAE_init (VAEEncoder_init [] 1 1 (1 / 1000)) (VAEDecoder_init [] 1 (1 / 1000)))
       \<lparr>lr = 1 / 1000\<rparr> MeanSquaredError default_kl_loss_fn MeanSquaredError"
  let ?w = "\<lparr>encoder_w = \<lparr>hidden_w = [], y_w = ([[0]], [0]), latent_w = ([[1 / 3, 0]], [0, 0])\<rparr>,
       decoder_w = [([[0], [0]], [0])]\<rparr>"
  have k: "kl_loss_fn ?vae = Some default_kl_loss_fn"
    by (simp add: VAE_compile_def)
  have c: "VAE_call ?vae ?w (\<lambda>i j. 3) ([[3]], [[0]])
      = Some ([[selu_scale]], [[0]], [[selu_scale + 3]], [[1]], [[1]])"
    by (simp add: VAE_compile_def VAE_call_def VAE_init_def concat_axis1_def VAEDecoder_call_def
        VAEEncoder_call_def VAEEncoder_init_def VAEDecoder_init_def dense_call_def dot_col_def
        split2_axis1_def random_normal_def mat_map_def mat_map2_def shape1_def selu_def
        softmax_def upt_2)
  have kl: "calc_kl_loss [[selu_scale]] [[0]] = selu_scale\<^sup>2 / 2"
    by (simp add: calc_kl_loss_def mat_map_def mat_map2_def reduce_sum_axis1_def reduce_mean_def)
  have t: "train_step ?vae ?w (\<lambda>i j. 3) ([[3]], [[0]])
     = Some \<lparr>reconstruction_loss = 4, kl_loss = selu_scale\<^sup>2 / 2, y_loss = 1,
             total_loss = 4 + selu_scale\<^sup>2 / 2 + 1, metric_lr = 1 / 1000\<rparr>"
    unfolding train_step_def prod.case c
    by (simp add: VAE_compile_def VAE_init_def MeanSquaredError_def default_kl_loss_fn_def kl
         mat_map2_def reduce_mean_def Let_def)
  have "spec_kl_term [selu_scale] [0] = selu_scale\<^sup>2 / 2"
    by (simp add: spec_kl_term_def)
  with k t train_step_total_loss [OF k t] show ?thesis by simp
qed

section \<open>Properties of the data preparation\<close>

lemma filter_enumerate_fst:
  "map fst (filter (\<lambda>(i, r). P r) (enumerate 0 xs)) = filter (\<lambda>i. P (xs ! i)) [0..<length xs]"
proof (induction xs rule: rev_induct)
  case Nil
  then show ?case by simp
next
  case (snoc x xs)
  have "filter (\<lambda>i. P ((xs @ [x]) ! i)) [0..<length xs] = filter (\<lambda>i. P (xs ! i)) [0..<length xs]"
    by (rule filter_cong) (simp_all add: nth_append)
  with snoc show ?case by (simp add: enumerate_append_eq)
qed

lemma condition_indices_eq:
  "condition_indices db = filter (\<lambda>i. dcode (rows db ! i) = 0) [0..<length (rows db)]"
  by (simp add: condition_indices_def filter_enumerate_fst)

lemma set_condition_indices:
  "set (condition_indices db) = {i. i < length (rows db) \<and> dcode (rows db ! i) = 0}"
  by (auto simp: condition_indices_eq)

lemma filter_by_index: "map (\<lambda>i. xs ! i) (filter (\<lambda>i. P (xs ! i)) [0..<length xs]) = filter P xs"
proof -
  have "filter P xs = filter P (map (\<lambda>i. xs ! i) [0..<length xs])"
    by (simp add: map_nth)
  also have "\<dots> = map (\<lambda>i. xs ! i) (filter (\<lambda>i. P (xs ! i)) [0..<length xs])"
    by (simp add: filter_map comp_def)
  finally show ?thesis by simp
qed

lemma loc_labels_condition:
  assumes "length Y = length (rows db)"
  shows "loc_labels Y (condition_indices db)
     = map snd (filter (\<lambda>(r, y). dcode r = 0) (zip (rows db) Y))"
proof -
  let ?Z = "zip (rows db) Y"
  have len: "length ?Z = length (rows db)" using assms by simp
  have "map snd (filter (\<lambda>(r, y). dcode r = 0) ?Z)
      = map snd (map (\<lambda>i. ?Z ! i) (filter (\<lambda>i. (\<lambda>(r, y). dcode r = 0) (?Z ! i)) [0..<length ?Z]))"
    by (simp only: filter_by_index)
  also have "\<dots> = map (\<lambda>i. Y ! i) (filter (\<lambda>i. (\<lambda>(r, y). dcode r = 0) (?Z ! i)) [0..<length ?Z])"
    using assms by (auto simp: comp_def)
  also have "filter (\<lambda>i. (\<lambda>(r, y). dcode r = 0) (?Z ! i)) [0..<length ?Z]
      = condition_indices db"
    unfolding condition_indices_eq len
    by (rule filter_cong) (use assms in auto)
  finally show ?thesis by (simp add: loc_labels_def)
qed

lemma test_mask_eq: "test_mask db = map (\<lambda>r. dcode r \<noteq> 0) (rows db)"
proof -
  have "test_mask db = map (\<lambda>i. dcode (rows db ! i) \<noteq> 0) [0..<length (rows db)]"
    by (simp add: test_mask_def isin_def set_condition_indices)
  also have "\<dots> = map (\<lambda>r. dcode r \<noteq> 0) (map (\<lambda>i. rows db ! i) [0..<length (rows db)])"
    by (simp add: comp_def)
  finally show ?thesis by (simp add: map_nth)
qed

lemma loc_mask_map:
  "length Y = length xs \<Longrightarrow>
   map fst (filter snd (zip Y (map g xs))) = map snd (filter (\<lambda>(r, y). g r) (zip xs Y))"
  by (induction Y xs rule: list_induct2) simp_all

lemma loc_mask_test:
  assumes "length Y = length (rows db)"
  shows "loc_mask Y (test_mask db) = map snd (filter (\<lambda>(r, y). dcode r \<noteq> 0) (zip (rows db) Y))"
  unfolding loc_mask_def test_mask_eq using assms by (rule loc_mask_map)

lemma zip_map_self: "zip xs (map f xs) = map (\<lambda>x. (x, f x)) xs"
  by (induction xs) simp_all

lemma train_x_eq: "train_x db = map features (filter (\<lambda>r. dcode r = 0) (rows db))"
proof -
  have "train_x db
      = map snd (filter (\<lambda>(r, y). dcode r = 0) (zip (rows db) (map features (rows db))))"
    unfolding train_x_def by (rule loc_labels_condition) simp
  also have "\<dots> = map features (filter (\<lambda>r. dcode r = 0) (rows db))"
    by (simp add: zip_map_self filter_map comp_def)
  finally show ?thesis .
qed

lemma test_x_eq: "test_x db = map features (filter (\<lambda>r. dcode r \<noteq> 0) (rows db))"
proof -
  have "test_x db
      = map snd (filter (\<lambda>(r, y). dcode r \<noteq> 0) (zip (rows db) (map features (rows db))))"
    unfolding test_x_def by (rule loc_mask_test) simp
  also have "\<dots> = map features (filter (\<lambda>r. dcode r \<noteq> 0) (rows db))"
    by (simp add: zip_map_self filter_map comp_def)
  finally show ?thesis .
qed

lemma OneHotEncoder_length:
  "OneHotEncoder_fit_transform c = Some M \<Longrightarrow> length M = length c"
  by (auto simp: OneHotEncoder_fit_transform_def Let_def split: if_splits)

lemma y_data_length:
  assumes "y_data db = Some Y"
  shows "length Y = length (rows db)"
proof -
  from assms obtain S A where
    "OneHotEncoder_fit_transform (map sex (rows db)) = Some S"
    "OneHotEncoder_fit_transform (map (\<lambda>r. round_half_even (age r)) (rows db)) = Some A"
    "Y = map2 (@) A S"
    by (auto simp: y_data_def bind_eq_Some_conv)
  then show ?thesis by (auto dest!: OneHotEncoder_length)
qed

lemma StandardScaler_transform_length:
  "StandardScaler_transform sc X = Some Z \<Longrightarrow> length Z = length X"
  by (auto simp: StandardScaler_transform_def split: if_splits)

lemma generate_data_SomeD:
  assumes "generate_data db = Some (train_x_norm, train_y, test_x_norm, test_y)"
  obtains Y scaler where "y_data db = Some Y"
    and "StandardScaler_fit (train_x db) = Some scaler"
    and "StandardScaler_transform scaler (train_x db) = Some train_x_norm"
    and "StandardScaler_transform scaler (test_x db) = Some test_x_norm"
    and "train_y = loc_labels Y (condition_indices db)"
    and "test_y = loc_mask Y (test_mask db)"
proof -
  from assms have "\<exists>Y scaler. y_data db = Some Y
    \<and> StandardScaler_fit (train_x db) = Some scaler
    \<and> StandardScaler_transform scaler (train_x db) = Some train_x_norm
    \<and> StandardScaler_transform scaler (test_x db) = Some test_x_norm
    \<and> train_y = loc_labels Y (condition_indices db)
    \<and> test_y = loc_mask Y (test_mask db)"
    by (auto simp: generate_data_def StandardScaler_fit_transform_def Let_def bind_eq_Some_conv)
  then show ?thesis using that by blast
qed

lemma mset_filter_split:
  "mset (map f (filter P xs)) + mset (map f (filter (\<lambda>x. \<not> P x) xs)) = mset (map f xs)"
  by (induction xs) simp_all

text \<open>
  C2: in \<open>generate_data\<close> the train pool is exactly the rows whose \<open>dcode\<close> is 0 and
  the test pool exactly the other rows: the labels of the two pools are disjoint and
  together all labels of the table, the two feature matrices hold the rows of the two
  pools (together, as multisets, all rows), and the label matrices returned are the rows
  of the label matrix at the same two pools.
\<close>

theorem generate_data_partition:
  fixes db :: "('c::linorder) dataframe"
  shows "set (condition_indices db) = {i. i < length (rows db) \<and> dcode (rows db ! i) = 0}
   \<and> test_mask db = map (\<lambda>r. dcode r \<noteq> 0) (rows db)
   \<and> set (condition_indices db) \<inter> {i. i < length (rows db) \<and> test_mask db ! i} = {}
   \<and> set (condition_indices db) \<union> {i. i < length (rows db) \<and> test_mask db ! i}
        = {..<length (rows db)}
   \<and> train_x db = map features (filter (\<lambda>r. dcode r = 0) (rows db))
   \<and> test_x db = map features (filter (\<lambda>r. dcode r \<noteq> 0) (rows db))
   \<and> mset (train_x db) + mset (test_x db) = mset (map features (rows db))
   \<and> (\<forall>train_x_norm train_y test_x_norm test_y.
        generate_data db = Some (train_x_norm, train_y, test_x_norm, test_y) \<longrightarrow>
        length train_x_norm = length (train_x db) \<and> length test_x_norm = length (test_x db)
        \<and> (\<exists>Y. y_data db = Some Y \<and> length Y = length (rows db)
             \<and> train_y = map snd (filter (\<lambda>(r, y). dcode r = 0) (zip (rows db) Y))
             \<and> test_y = map snd (filter (\<lambda>(r, y). dcode r \<noteq> 0) (zip (rows db) Y))))"
proof -
  have a: "set (condition_indices db) = {i. i < length (rows db) \<and> dcode (rows db ! i) = 0}"
    by (rule set_condition_indices)
  have b: "test_mask db = map (\<lambda>r. dcode r \<noteq> 0) (rows db)"
    by (rule test_mask_eq)
  have c: "set (condition_indices db) \<inter> {i. i < length (rows db) \<and> test_mask db ! i} = {}"
    by (auto simp: a b)
  have d: "set (condition_indices db) \<union> {i. i < length (rows db) \<and> test_mask db ! i}
        = {..<length (rows db)}"
    by (auto simp: a b)
  have e: "mset (train_x db) + mset (test_x db) = mset (map features (rows db))"
    unfolding train_x_eq test_x_eq by (rule mset_filter_split)
  have f: "length train_x_norm = length (train_x db) \<and> length test_x_norm = length (test_x db)
        \<and> (\<exists>Y. y_data db = Some Y \<and> length Y = length (rows db)
             \<and> train_y = map snd (filter (\<lambda>(r, y). dcode r = 0) (zip (rows db) Y))
             \<and> test_y = map snd (filter (\<lambda>(r, y). dcode r \<noteq> 0) (zip (rows db) Y)))"
    if g: "generate_data db = Some (train_x_norm, train_y, test_x_norm, test_y)"
    for train_x_norm train_y test_x_norm test_y
  proof -
    from g obtain Y scaler where y: "y_data db = Some Y"
      and t1: "StandardScaler_transform scaler (train_x db) = Some train_x_norm"
      and t2: "StandardScaler_transform scaler (test_x db) = Some test_x_norm"
      and ty: "train_y = loc_labels Y (condition_indices db)"
      and tey: "test_y = loc_mask Y (test_mask db)"
      by (rule generate_data_SomeD)
    from y have len: "length Y = length (rows db)" by (rule y_data_length)
    from StandardScaler_transform_length [OF t1] StandardScaler_transform_length [OF t2]
      y len ty tey loc_labels_condition [OF len] loc_mask_test [OF len]
    show ?thesis by simp
  qed
  from a b c d e f train_x_eq [of db] test_x_eq [of db] show ?thesis by blast
qed


lemma round_half_even_examples:
  "round_half_even 30 = 30" "round_half_even (91 / 2) = 46" "round_half_even (89 / 2) = 44"
  by (simp_all add: round_half_even_def Let_def)

theorem generate_data_partition_witness:
  "generate_data \<lparr>feature_names = [''a_thickness''],
          rows = [\<lparr>age = 30, sex = 0 :: int, dcode = 0, features = [1]\<rparr>,
                  \<lparr>age = 91 / 2, sex = 1, dcode = 1, features = [5]\<rparr>,
                  \<lparr>age = 30, sex = 0, dcode = 0, features = [3]\<rparr>]\<rparr>
     = Some ([[- 1], [1]], [[1, 0, 1, 0], [1, 0, 1, 0]], [[3]], [[0, 1, 0, 1]])
   \<and> condition_indices \<lparr>feature_names = [''a_thickness''],
          rows = [\<lparr>age = 30, sex = 0 :: int, dcode = 0, features = [1]\<rparr>,
                  \<lparr>age = 91 / 2, sex = 1, dcode = 1, features = [5]\<rparr>,
                  \<lparr>age = 30, sex = 0, dcode = 0, features = [3]\<rparr>]\<rparr> = [0, 2]
   \<and> y_data \<lparr>feature_names = [''a_thickness''],
          rows = [\<lparr>age = 30, sex = 0 :: int, dcode = 0, features = [1]\<rparr>,
                  \<lparr>age = 91 / 2, sex = 1, dcode = 1, features = [5]\<rparr>,
                  \<lparr>age = 30, sex = 0, dcode = 0, features = [3]\<rparr>]\<rparr> = Some [[1, 0, 1, 0], [0, 1, 0, 1], [1, 0, 1, 0]]
   \<and> train_x \<lparr>feature_names = [''a_thickness''],
          rows = [\<lparr>age = 30, sex = 0 :: int, dcode = 0, features = [1]\<rparr>,
                  \<lparr>age = 91 / 2, sex = 1, dcode = 1, features = [5]\<rparr>,
                  \<lparr>age = 30, sex = 0, dcode = 0, features = [3]\<rparr>]\<rparr> = [[1], [3]] \<and> test_x \<lparr>feature_names = [''a_thickness''],
          rows = [\<lparr>age = 30, sex = 0 :: int, dcode = 0, features = [1]\<rparr>,
                  \<lparr>age = 91 / 2, sex = 1, dcode = 1, features = [5]\<rparr>,
                  \<lparr>age = 30, sex = 0, dcode = 0, features = [3]\<rparr>]\<rparr> = [[5]]"
proof -
  let ?db = "\<lparr>feature_names = [''a_thickness''],
          rows = [\<lparr>age = 30, sex = 0 :: int, dcode = 0, features = [1]\<rparr>,
                  \<lparr>age = 91 / 2, sex = 1, dcode = 1, features = [5]\<rparr>,
                  \<lparr>age = 30, sex = 0, dcode = 0, features = [3]\<rparr>]\<rparr>"
  have ci: "condition_indices ?db = [0, 2]"
    by (simp add: condition_indices_def enumerate_eq_zip upt_rec [of 0] upt_rec [of 1]
        upt_rec [of 2] upt_rec [of 3])
  have tm: "test_mask ?db = [False, True, False]"
    unfolding test_mask_def ci
    by (simp add: isin_def upt_rec [of 0] upt_rec [of 1] upt_rec [of 2] upt_rec [of 3])
  have y: "y_data ?db = Some [[1, 0, 1, 0], [0, 1, 0, 1], [1, 0, 1, 0]]"
    by (simp add: y_data_def OneHotEncoder_fit_transform_def round_half_even_examples)
  have tr: "train_x ?db = [[1], [3]]"
    unfolding train_x_def ci by (simp add: loc_labels_def)
  have te: "test_x ?db = [[5]]"
    unfolding test_x_def tm by (simp add: loc_mask_def)
  have fit: "StandardScaler_fit [[1], [3]] = Some \<lparr>mean' = [2], var' = [1], scale' = [1]\<rparr>"
    by (simp add: StandardScaler_fit_def check_array_def shape1_def column_def
        column_mean_def column_var_def Let_def)
  have g: "generate_data ?db
     = Some ([[- 1], [1]], [[1, 0, 1, 0], [1, 0, 1, 0]], [[3]], [[0, 1, 0, 1]])"
    unfolding generate_data_def y tr te ci tm StandardScaler_fit_transform_def fit
    by (simp add: StandardScaler_transform_def check_array_def shape1_def loc_labels_def
        loc_mask_def)
  from generate_data_partition [of ?db] g
  have "\<exists>Y. y_data ?db = Some Y \<and> length Y = length (rows ?db)"
    by blast
  with g ci y tr te show ?thesis by simp
qed


lemma StandardScaler_fit_stats:
  assumes "StandardScaler_fit X = Some scaler"
  shows "mean' scaler = map (\<lambda>j. column_mean (column X j)) [0..<shape1 X]"
    and "var' scaler = map (\<lambda>j. column_var (column X j)) [0..<shape1 X]"
    and "scale' scaler = map (\<lambda>v. if v = 0 then 1 else sqrt v) (var' scaler)"
  using assms by (auto simp: StandardScaler_fit_def Let_def split: if_splits)

lemma thickness_train_x_eq:
  "thickness_train_x db = thickness_data (db\<lparr>rows := filter (\<lambda>r. dcode r = 0) (rows db)\<rparr>)"
proof -
  have "thickness_train_x db
      = map snd (filter (\<lambda>(r, y). dcode r = 0) (zip (rows db) (thickness_data db)))"
    unfolding thickness_train_x_def by (rule loc_labels_condition) (simp add: thickness_data_def)
  then show ?thesis
    by (simp add: thickness_data_def zip_map_self filter_map comp_def)
qed

lemma thickness_test_x_eq:
  "thickness_test_x db = thickness_data (db\<lparr>rows := filter (\<lambda>r. dcode r \<noteq> 0) (rows db)\<rparr>)"
proof -
  have "thickness_test_x db
      = map snd (filter (\<lambda>(r, y). dcode r \<noteq> 0) (zip (rows db) (thickness_data db)))"
    unfolding thickness_test_x_def by (rule loc_mask_test) (simp add: thickness_data_def)
  then show ?thesis
    by (simp add: thickness_data_def zip_map_self filter_map comp_def)
qed

lemma from_tensor_slices_fst: "from_tensor_slices (x, y) = Some d \<Longrightarrow> map fst d = x"
  by (auto simp: from_tensor_slices_def split: if_splits)

lemma generate_data_thickness_only_SomeD:
  assumes "generate_data_thickness_only permutation db validation_split True
      = Some (train, val, test, cols)"
  obtains scaler train_x_norm test_x_norm test_y where
    "StandardScaler_fit (thickness_train_x db) = Some scaler"
    and "StandardScaler_transform scaler (thickness_train_x db) = Some train_x_norm"
    and "StandardScaler_transform scaler (thickness_test_x db) = Some test_x_norm"
    and "from_tensor_slices (test_x_norm, test_y) = Some test"
proof -
  from assms have "\<exists>scaler train_x_norm test_x_norm test_y.
      StandardScaler_fit (thickness_train_x db) = Some scaler
    \<and> StandardScaler_transform scaler (thickness_train_x db) = Some train_x_norm
    \<and> StandardScaler_transform scaler (thickness_test_x db) = Some test_x_norm
    \<and> from_tensor_slices (test_x_norm, test_y) = Some test"
    by (auto simp: generate_data_thickness_only_def StandardScaler_fit_transform_def Let_def
        bind_eq_Some_conv)
  then show ?thesis using that by blast
qed

text \<open>
  C5: in \<open>generate_data\<close>, and in \<open>generate_data_thickness_only\<close> when \<open>normalize\<close> is
  true, the scaler is fitted on the train pool (the rows whose \<open>dcode\<close> is 0): its means
  and variances are those of the columns of the train pool, and the test features
  returned are the test pool transformed by that same scaler.
\<close>

theorem scaler_fit_on_train_pool:
  fixes db :: "('c::linorder) dataframe"
  shows "(generate_data db = Some (train_x_norm, train_y, test_x_norm, test_y) \<longrightarrow>
      (\<exists>scaler. StandardScaler_fit (train_x db) = Some scaler
         \<and> train_x db = map features (filter (\<lambda>r. dcode r = 0) (rows db))
         \<and> mean' scaler = map (\<lambda>j. column_mean (column (train_x db) j)) [0..<shape1 (train_x db)]
         \<and> var' scaler = map (\<lambda>j. column_var (column (train_x db) j)) [0..<shape1 (train_x db)]
         \<and> StandardScaler_transform scaler (train_x db) = Some train_x_norm
         \<and> StandardScaler_transform scaler (test_x db) = Some test_x_norm))
   \<and> (generate_data_thickness_only permutation db validation_split True
        = Some (train, val, test, cols) \<longrightarrow>
      (\<exists>scaler. StandardScaler_fit (thickness_train_x db) = Some scaler
         \<and> thickness_train_x db
             = thickness_data (db\<lparr>rows := filter (\<lambda>r. dcode r = 0) (rows db)\<rparr>)
         \<and> mean' scaler = map (\<lambda>j. column_mean (column (thickness_train_x db) j))
                             [0..<shape1 (thickness_train_x db)]
         \<and> var' scaler = map (\<lambda>j. column_var (column (thickness_train_x db) j))
                            [0..<shape1 (thickness_train_x db)]
         \<and> StandardScaler_transform scaler (thickness_test_x db) = Some (map fst test)))"
proof (intro conjI impI)
  assume "generate_data db = Some (train_x_norm, train_y, test_x_norm, test_y)"
  then obtain scaler where f: "StandardScaler_fit (train_x db) = Some scaler"
    and t1: "StandardScaler_transform scaler (train_x db) = Some train_x_norm"
    and t2: "StandardScaler_transform scaler (test_x db) = Some test_x_norm"
    by (rule generate_data_SomeD)
  from f t1 t2 StandardScaler_fit_stats(1,2) [OF f] train_x_eq [of db]
  show "\<exists>scaler. StandardScaler_fit (train_x db) = Some scaler
         \<and> train_x db = map features (filter (\<lambda>r. dcode r = 0) (rows db))
         \<and> mean' scaler = map (\<lambda>j. column_mean (column (train_x db) j)) [0..<shape1 (train_x db)]
         \<and> var' scaler = map (\<lambda>j. column_var (column (train_x db) j)) [0..<shape1 (train_x db)]
         \<and> StandardScaler_transform scaler (train_x db) = Some train_x_norm
         \<and> StandardScaler_transform scaler (test_x db) = Some test_x_norm"
    by blast
next
  assume "generate_data_thickness_only permutation db validation_split True
        = Some (train, val, test, cols)"
  then obtain scaler test_x_norm' test_y' where
    f: "StandardScaler_fit (thickness_train_x db) = Some scaler"
    and t2: "StandardScaler_transform scaler (thickness_test_x db) = Some test_x_norm'"
    and s: "from_tensor_slices (test_x_norm', test_y') = Some test"
    by (rule generate_data_thickness_only_SomeD)
  from s have "map fst test = test_x_norm'" by (rule from_tensor_slices_fst)
  with f t2 StandardScaler_fit_stats(1,2) [OF f] thickness_train_x_eq [of db]
  show "\<exists>scaler. StandardScaler_fit (thickness_train_x db) = Some scaler
         \<and> thickness_train_x db
             = thickness_data (db\<lparr>rows := filter (\<lambda>r. dcode r = 0) (rows db)\<rparr>)
         \<and> mean' scaler = map (\<lambda>j. column_mean (column (thickness_train_x db) j))
                             [0..<shape1 (thickness_train_x db)]
         \<and> var' scaler = map (\<lambda>j. column_var (column (thickness_train_x db) j))
                            [0..<shape1 (thickness_train_x db)]
         \<and> StandardScaler_transform scaler (thickness_test_x db) = Some (map fst test)"
    by blast
qed


theorem scaler_fit_on_train_pool_witness:
  "generate_data \<lparr>feature_names = [''a_thickness'', ''b_volume''],
          rows = [\<lparr>age = 30, sex = 0 :: int, dcode = 0, features = [1, 10]\<rparr>,
                  \<lparr>age = 91 / 2, sex = 1, dcode = 1, features = [5, 50]\<rparr>,
                  \<lparr>age = 30, sex = 0, dcode = 0, features = [3, 8]\<rparr>]\<rparr>
     = Some ([[- 1, 1], [1, - 1]], [[1, 0, 1, 0], [1, 0, 1, 0]], [[3, 41]], [[0, 1, 0, 1]])
   \<and> generate_data_thickness_only (\<lambda>n. [0..<n]) \<lparr>feature_names = [''a_thickness'', ''b_volume''],
          rows = [\<lparr>age = 30, sex = 0 :: int, dcode = 0, features = [1, 10]\<rparr>,
                  \<lparr>age = 91 / 2, sex = 1, dcode = 1, features = [5, 50]\<rparr>,
                  \<lparr>age = 30, sex = 0, dcode = 0, features = [3, 8]\<rparr>]\<rparr> (1 / 5) True
     = Some ([([1], [1, 0, 1, 0])], [([- 1], [1, 0, 1, 0])], [([3], [0, 1, 0, 1])],
             [''a_thickness''])
   \<and> StandardScaler_fit (train_x \<lparr>feature_names = [''a_thickness'', ''b_volume''],
          rows = [\<lparr>age = 30, sex = 0 :: int, dcode = 0, features = [1, 10]\<rparr>,
                  \<lparr>age = 91 / 2, sex = 1, dcode = 1, features = [5, 50]\<rparr>,
                  \<lparr>age = 30, sex = 0, dcode = 0, features = [3, 8]\<rparr>]\<rparr>) = Some \<lparr>mean' = [2, 9], var' = [1, 1], scale' = [1, 1]\<rparr>
   \<and> StandardScaler_fit (thickness_train_x \<lparr>feature_names = [''a_thickness'', ''b_volume''],
          rows = [\<lparr>age = 30, sex = 0 :: int, dcode = 0, features = [1, 10]\<rparr>,
                  \<lparr>age = 91 / 2, sex = 1, dcode = 1, features = [5, 50]\<rparr>,
                  \<lparr>age = 30, sex = 0, dcode = 0, features = [3, 8]\<rparr>]\<rparr>) = Some \<lparr>mean' = [2], var' = [1], scale' = [1]\<rparr>"
proof -
  let ?db = "\<lparr>feature_names = [''a_thickness'', ''b_volume''],
          rows = [\<lparr>age = 30, sex = 0 :: int, dcode = 0, features = [1, 10]\<rparr>,
                  \<lparr>age = 91 / 2, sex = 1, dcode = 1, features = [5, 50]\<rparr>,
                  \<lparr>age = 30, sex = 0, dcode = 0, features = [3, 8]\<rparr>]\<rparr>"
  have ci: "condition_indices ?db = [0, 2]"
    by (simp add: condition_indices_def enumerate_eq_zip upt_rec [of 0] upt_rec [of 1]
        upt_rec [of 2] upt_rec [of 3])
  have tm: "test_mask ?db = [False, True, False]"
    unfolding test_mask_def ci
    by (simp add: isin_def upt_rec [of 0] upt_rec [of 1] upt_rec [of 2] upt_rec [of 3])
  have y: "y_data ?db = Some [[1, 0, 1, 0], [0, 1, 0, 1], [1, 0, 1, 0]]"
    by (simp add: y_data_def OneHotEncoder_fit_transform_def round_half_even_examples)
  have tr: "train_x ?db = [[1, 10], [3, 8]]"
    unfolding train_x_def ci by (simp add: loc_labels_def)
  have te: "test_x ?db = [[5, 50]]"
    unfolding test_x_def tm by (simp add: loc_mask_def)
  have td: "thickness_data ?db = [[1], [5], [3]]"
    by (simp add: thickness_data_def endswith_def)
  have tc: "thickness_columns ?db = [''a_thickness'']"
    by (simp add: thickness_columns_def endswith_def)
  have ttr: "thickness_train_x ?db = [[1], [3]]"
    unfolding thickness_train_x_def ci td by (simp add: loc_labels_def)
  have tte: "thickness_test_x ?db = [[5]]"
    unfolding thickness_test_x_def tm td by (simp add: loc_mask_def)
  have fit: "StandardScaler_fit [[1, 10], [3, 8]]
      = Some \<lparr>mean' = [2, 9], var' = [1, 1], scale' = [1, 1]\<rparr>"
    by (simp add: StandardScaler_fit_def check_array_def shape1_def column_def
        column_mean_def column_var_def Let_def upt_2)
  have fit1: "StandardScaler_fit [[1], [3]] = Some \<lparr>mean' = [2], var' = [1], scale' = [1]\<rparr>"
    by (simp add: StandardScaler_fit_def check_array_def shape1_def column_def
        column_mean_def column_var_def Let_def)
  have g: "generate_data ?db
     = Some ([[- 1, 1], [1, - 1]], [[1, 0, 1, 0], [1, 0, 1, 0]], [[3, 41]], [[0, 1, 0, 1]])"
    unfolding generate_data_def y tr te ci tm StandardScaler_fit_transform_def fit
    by (simp add: StandardScaler_transform_def check_array_def shape1_def loc_labels_def
        loc_mask_def)
  have split: "train_test_split (\<lambda>n. [0..<n]) [[- 1], [1]] [[1, 0, 1, 0], [1, 0, 1, 0]] (1 / 5)
      = Some ([[1]], [[- 1]], [[1, 0, 1, 0]], [[1, 0, 1, 0]])"
    by (simp add: train_test_split_def Let_def loc_labels_def upt_2)
  have nrm: "StandardScaler_transform \<lparr>mean' = [2], var' = [1], scale' = [1]\<rparr> [[1], [3]]
      = Some [[- 1], [1]]"
    "StandardScaler_transform \<lparr>mean' = [2], var' = [1], scale' = [1]\<rparr> [[5]] = Some [[3]]"
    by (simp_all add: StandardScaler_transform_def check_array_def shape1_def)
  have ly: "loc_labels [[1, 0, 1, 0], [0, 1, 0, 1], [1, 0, 1, 0 :: real]] [0, 2]
      = [[1, 0, 1, 0], [1, 0, 1, 0]]"
    "loc_mask [[1, 0, 1, 0], [0, 1, 0, 1], [1, 0, 1, 0 :: real]] [False, True, False]
      = [[0, 1, 0, 1]]"
    by (simp_all add: loc_labels_def loc_mask_def)
  have gt: "generate_data_thickness_only (\<lambda>n. [0..<n]) ?db (1 / 5) True
     = Some ([([1], [1, 0, 1, 0])], [([- 1], [1, 0, 1, 0])], [([3], [0, 1, 0, 1])],
             [''a_thickness''])"
    unfolding generate_data_thickness_only_def y ttr tte ci tm tc
      StandardScaler_fit_transform_def fit1
    by (simp add: nrm ly split from_tensor_slices_def)
  have "StandardScaler_fit (train_x ?db) = Some \<lparr>mean' = [2, 9], var' = [1, 1], scale' = [1, 1]\<rparr>"
    unfolding tr by (rule fit)
  moreover have "StandardScaler_fit (thickness_train_x ?db)
      = Some \<lparr>mean' = [2], var' = [1], scale' = [1]\<rparr>"
    unfolding ttr by (rule fit1)
  ultimately show ?thesis
    using g gt scaler_fit_on_train_pool [of ?db "[[- 1, 1], [1, - 1]]"
        "[[1, 0, 1, 0], [1, 0, 1, 0]]" "[[3, 41]]" "[[0, 1, 0, 1]]" "\<lambda>n. [0..<n]" "1 / 5"
        "[([1], [1, 0, 1, 0])]" "[([- 1], [1, 0, 1, 0])]" "[([3], [0, 1, 0, 1])]"
        "[''a_thickness'']"]
    by blast
qed

section \<open>Properties of the cross-validator\<close>

lemma length_concat_map_const:
  "(\<And>x. x \<in> set xs \<Longrightarrow> length (f x) = m) \<Longrightarrow> length (concat (map f xs)) = length xs * m"
  by (induction xs) simp_all

lemma length_create_param_grid:
  "length (create_param_grid H L D A I B)
     = length H * length L * length D * length A * length I * length B"
proof -
  have "length (create_param_grid H L D A I B)
      = length H * (length L * (length D * (length A * (length I * length B))))"
    unfolding create_param_grid_def
    by (intro length_concat_map_const) simp
  then show ?thesis by (simp add: mult.assoc)
qed

text \<open>
  C8: for a grid built from axes of sizes \<open>|H|\<close>, \<open>|L|\<close>, \<open>|D|\<close>, \<open>|A|\<close>, \<open>|I|\<close>, \<open>|B|\<close>, a
  cross-validation run with \<open>k\<close> folds returns \<open>|H| * |L| * |D| * |A| * |I| * |B|\<close> entries,
  one per grid point, each with exactly \<open>k\<close> fold histories, for the folds \<open>0, \<dots>, k - 1\<close>.
\<close>

theorem cross_validate_result_count:
  assumes "param_grid self = create_param_grid H L D A I B"
  shows "length (cross_validate self folds fit train_data epochs)
       = length H * length L * length D * length A * length I * length B
     \<and> map fst (cross_validate self folds fit train_data epochs) = param_grid self
     \<and> (\<forall>entry \<in> set (cross_validate self folds fit train_data epochs).
          length (snd entry) = k_folds self \<and> map fst (snd entry) = [0..<k_folds self])"
proof -
  have "map fst (cross_validate self folds fit train_data epochs) = param_grid self"
    by (simp add: cross_validate_def comp_def)
  moreover from this have "length (cross_validate self folds fit train_data epochs)
      = length (param_grid self)"
    by (metis length_map)
  moreover have "\<forall>entry \<in> set (cross_validate self folds fit train_data epochs).
      length (snd entry) = k_folds self \<and> map fst (snd entry) = [0..<k_folds self]"
    by (auto simp: cross_validate_def comp_def Let_def)
  ultimately show ?thesis
    by (simp add: assms length_create_param_grid)
qed

theorem cross_validate_result_count_witness:
  "param_grid \<lparr>param_grid = create_param_grid [[100, 100], [150, 150]] [10] [1 / 10, 1 / 5]
        [''relu''] [''glorot_uniform''] [1 / 1000], input_dim = 3, k_folds = 5, batch_size = 128\<rparr>
     = create_param_grid [[100, 100], [150, 150]] [10] [1 / 10, 1 / 5]
        [''relu''] [''glorot_uniform''] [1 / 1000]
   \<and> length (cross_validate
        \<lparr>param_grid = create_param_grid [[100, 100], [150, 150]] [10] [1 / 10, 1 / 5]
          [''relu''] [''glorot_uniform''] [1 / 1000], input_dim = 3, k_folds = 5, batch_size = 128\<rparr>
        (\<lambda>k xs. map (\<lambda>i. [xs ! i]) [0..<k]) (\<lambda>p tr ho e. replicate e (length tr))
        [1, 2, 3, 4, 5 :: nat] 2) = 4
   \<and> length (snd (hd (cross_validate
        \<lparr>param_grid = create_param_grid [[100, 100], [150, 150]] [10] [1 / 10, 1 / 5]
          [''relu''] [''glorot_uniform''] [1 / 1000], input_dim = 3, k_folds = 5, batch_size = 128\<rparr>
        (\<lambda>k xs. map (\<lambda>i. [xs ! i]) [0..<k]) (\<lambda>p tr ho e. replicate e (length tr))
        [1, 2, 3, 4, 5 :: nat] 2))) = 5"
proof -
  let ?cv = "\<lparr>param_grid = create_param_grid [[100, 100], [150, 150]] [10] [1 / 10, 1 / 5]
        [''relu''] [''glorot_uniform''] [1 / 1000], input_dim = 3, k_folds = 5, batch_size = 128\<rparr>"
  let ?res = "cross_validate ?cv (\<lambda>k xs. map (\<lambda>i. [xs ! i]) [0..<k])
      (\<lambda>p tr ho e. replicate e (length tr)) [1, 2, 3, 4, 5 :: nat] 2"
  have h: "param_grid ?cv = create_param_grid [[100, 100], [150, 150]] [10] [1 / 10, 1 / 5]
        [''relu''] [''glorot_uniform''] [1 / 1000]"
    by simp
  note t = cross_validate_result_count [OF h, of "\<lambda>k xs. map (\<lambda>i. [xs ! i]) [0..<k]"
      "\<lambda>p tr ho e. replicate e (length tr)" "[1, 2, 3, 4, 5 :: nat]" 2]
  from t have l: "length ?res = 4" by simp
  then have ne: "?res \<noteq> []" by auto
  then have "hd ?res \<in> set ?res" by (rule hd_in_set)
  with t have "length (snd (hd ?res)) = 5" by auto
  with h l show ?thesis by blast
qed

end
